theory Spec2Isabelle
  imports Main
begin

section \<open>Values of the host language\<close>

text \<open>
  The purchase engine lives in two places of the sources: the wallet-service function
  \<open>purchaseKey\<close> (the default export of the purchase module) and the checkout
  component \<open>ConfirmSwapAndPurchase\<close>, whose \<open>onConfirmCrypto\<close> builds the request.
  Both are asynchronous JavaScript. Every awaited collaborator is a field of an
  environment record that gives its answer (a value or a raised error); the calls made
  are recorded, in program order, in a trace of events.
\<close>

type_synonym address = string

text \<open>
  A quantity as the wallet layer accepts it: a \<open>bigint\<close> (or number), or a string.
  JavaScript's truthiness decides several branches of the source: \<open>undefined\<close>,
  \<open>null\<close>, \<open>0\<close>, \<open>0n\<close> and the empty string are falsy.
\<close>

datatype bigNumberish = BigInt int | Str string

fun truthy_quantity :: "bigNumberish option \<Rightarrow> bool" where
  "truthy_quantity None = False"
| "truthy_quantity (Some (BigInt n)) = (n \<noteq> 0)"
| "truthy_quantity (Some (Str s)) = (s \<noteq> [])"

fun truthy_string :: "string option \<Rightarrow> bool" where
  "truthy_string None = False"
| "truthy_string (Some s) = (s \<noteq> [])"

fun truthy_bigint :: "int option \<Rightarrow> bool" where
  "truthy_bigint None = False"
| "truthy_bigint (Some n) = (n \<noteq> 0)"

text \<open>Division of two \<open>bigint\<close>s truncates towards zero.\<close>

definition bigint_div :: "int \<Rightarrow> int \<Rightarrow> int" where
  "bigint_div a b = sgn a * sgn b * (\<bar>a\<bar> div \<bar>b\<bar>)"

text \<open>\<open>String.prototype.toLowerCase\<close>, on the ASCII letters an address is written with.\<close>

definition lower_char :: "char \<Rightarrow> char" where
  "lower_char c =
     (case map_of (zip ''ABCDEFGHIJKLMNOPQRSTUVWXYZ'' ''abcdefghijklmnopqrstuvwxyz'') c of
        Some l \<Rightarrow> l
      | None \<Rightarrow> c)"

definition toLowerCase :: "string \<Rightarrow> string" where
  "toLowerCase s = map lower_char s"

text \<open>\<open>BigInt.prototype.toString\<close>: the decimal numeral.\<close>

definition digit_char :: "nat \<Rightarrow> char" where
  "digit_char d = ''0123456789'' ! d"

function decimal :: "nat \<Rightarrow> string" where
  "decimal n = (if n < 10 then [digit_char n] else decimal (n div 10) @ [digit_char (n mod 10)])"
  by pat_completeness auto
termination
  by (relation "measure id") auto

definition bigint_toString :: "int \<Rightarrow> string" where
  "bigint_toString i = (if i < 0 then CHR ''-'' # decimal (nat (- i)) else decimal (nat i))"

text \<open>
  Modelled from the spec: the constant \<open>ZERO\<close> is imported from a constants module that
  is not among the sources; the spec calls it the native-currency sentinel, the zero
  address.
\<close>

definition ZERO :: address where
  "ZERO = ''0x0000000000000000000000000000000000000000''"

section \<open>Data of the wallet-service purchase function\<close>

record swapParams =
  srcTokenAddress :: "address option"
  uniswapRouter :: address
  swapCallData :: string
  swapValue :: "bigNumberish option"
  amountInMax :: int

record purchaseParams =
  lockAddress :: address
  owner :: "address option"
  keyPrice :: "string option"
  erc20Address :: "address option"
  decimals :: "nat option"
  referrer :: "address option"
  data :: "string option"
  swap :: "swapParams option"

record transactionOptions =
  txValue :: "bigNumberish option"
  gasLimit :: "bigNumberish option"
  maxFeePerGas :: "bigNumberish option"
  maxPriorityFeePerGas :: "bigNumberish option"
  gasPrice :: "bigNumberish option"

record feeData =
  fd_gasPrice :: "int option"
  fd_maxFeePerGas :: "int option"
  fd_maxPriorityFeePerGas :: "int option"

record approvalOptions =
  ao_erc20Address :: "address option"
  ao_address :: "address option"
  totalAmountToApprove :: int

record log =
  log_address :: address
  log_topics :: "string list"
  log_data :: string

record logDescription =
  fragment_name :: "string option"
  tokenId :: int

record receipt =
  status :: "int option"
  logs :: "log list"

datatype error = TransactionFailed | Raised string

text \<open>The two contract calls the function estimates and submits, with their arguments.\<close>

datatype contractCall =
  SwapAndCall address address int int address string string
| Purchase int address address string

datatype event =
  GetLockContract address
| SignerGetAddress
| LockTokenAddress
| LockKeyPrice
| GetErc20Decimals address
| ApproveAllowance approvalOptions
| GetFeeData
| EstimateGas contractCall transactionOptions
| SendTransaction contractCall transactionOptions
| Callback string
| WaitForTransaction string

text \<open>
  The lock contract object: its two views, and its interface (the encoder of the
  \<open>purchase\<close> call data and the log parser). The parser yields \<open>null\<close> for a log
  that matches no event of the interface, and raises on a log whose topic matches an
  event and whose contents do not decode as that event.
\<close>

record lockContract =
  tokenAddress :: "error + address"
  lock_keyPrice :: "error + int"
  encodePurchase :: "int \<Rightarrow> address \<Rightarrow> address \<Rightarrow> string \<Rightarrow> string"
  parseLog :: "log \<Rightarrow> error + logDescription option"

text \<open>
  A contract object as line 564 reads it: where the contract is deployed, and what
  reading the property \<open>address\<close> of the object gives, which is \<open>undefined\<close> on an
  object that has no property of that name.
\<close>

record contractObject =
  contract_target :: address
  contract_address :: "address option"

text \<open>
  The collaborators of the function: methods of the wallet service (\<open>this\<close>), of its
  provider and signer, and the imported helpers. \<open>sendTransaction\<close> stands for the
  contract method call together with \<open>_handleMethodCall\<close>, which awaits it and yields
  the transaction hash. \<open>getUnlockSwapPurchaserContract\<close> is the object built at line
  503, which asks the network nothing. A gas estimate is a quantity of gas, an unsigned
  number. \<open>console.error\<close> is left out of the trace.
\<close>

record env =
  getLockContract :: "address \<Rightarrow> error + lockContract"
  getUnlockSwapPurchaserContract :: contractObject
  signerGetAddress :: "error + address"
  getErc20Decimals :: "address \<Rightarrow> error + nat"
  toDecimal :: "string \<Rightarrow> nat \<Rightarrow> error + int"
  approveAllowance :: "approvalOptions \<Rightarrow> error + unit"
  getFeeData :: "error + feeData"
  estimateGas :: "contractCall \<Rightarrow> transactionOptions \<Rightarrow> error + nat"
  sendTransaction :: "contractCall \<Rightarrow> transactionOptions \<Rightarrow> error + string"
  callback :: "(string \<Rightarrow> error + unit) option"
  waitForTransaction :: "string \<Rightarrow> error + receipt"

section \<open>Runs: a trace of calls and a result\<close>

type_synonym 'a run = "event list \<times> (error + 'a)"

definition done_with :: "'a \<Rightarrow> 'a run" where
  "done_with x = ([], Inr x)"

definition await :: "event \<Rightarrow> (error + 'a) \<Rightarrow> 'a run" where
  "await ev answer = ([ev], answer)"

definition and_then :: "'a run \<Rightarrow> ('a \<Rightarrow> 'b run) \<Rightarrow> 'b run" where
  "and_then m f =
     (case m of
        (t, Inl e) \<Rightarrow> (t, Inl e)
      | (t, Inr x) \<Rightarrow> (case f x of (t', r) \<Rightarrow> (t @ t', r)))"

section \<open>The purchase function, block by block\<close>

text \<open>What lines 502-548 settle: the lock, the arguments with their defaults, the amount.\<close>

record resolved =
  r_lock :: lockContract
  r_owner :: address
  r_referrer :: address
  r_data :: string
  r_erc20Address :: "address option"
  r_actualAmount :: int
  r_callData :: string

text \<open>Lines 527-542: the amount in base units.\<close>

definition actualAmountOf ::
  "env \<Rightarrow> lockContract \<Rightarrow> string option \<Rightarrow> nat option \<Rightarrow> address option \<Rightarrow> int run" where
  "actualAmountOf E lock price decs erc20 =
     (if \<not> truthy_string price then await LockKeyPrice (lock_keyPrice lock)
      else case decs of
        Some d \<Rightarrow> ([], toDecimal E (the price) d)
      | None \<Rightarrow>
          and_then
            (if truthy_string erc20 \<and> erc20 \<noteq> Some ZERO
             then await (GetErc20Decimals (the erc20)) (getErc20Decimals E (the erc20))
             else done_with 18)
            (\<lambda>d. ([], toDecimal E (the price) d)))"

text \<open>Lines 550-558: the native value of the transaction.\<close>

definition withValue ::
  "resolved \<Rightarrow> swapParams option \<Rightarrow> transactionOptions \<Rightarrow> transactionOptions" where
  "withValue r sw opts =
     (let opts1 = (if \<not> truthy_string (r_erc20Address r) \<or> r_erc20Address r = Some ZERO
                   then opts\<lparr>txValue := Some (BigInt (r_actualAmount r))\<rparr> else opts)
      in case sw of
           None \<Rightarrow> opts1
         | Some s \<Rightarrow> if truthy_quantity (swapValue s) then opts1\<lparr>txValue := swapValue s\<rparr> else opts1)"

text \<open>Lines 560-576: the approval.\<close>

definition approvalOptionsOf ::
  "env \<Rightarrow> address \<Rightarrow> resolved \<Rightarrow> swapParams option \<Rightarrow> approvalOptions" where
  "approvalOptionsOf E lockAddr r sw =
     (case sw of
        Some s \<Rightarrow> \<lparr>ao_erc20Address = srcTokenAddress s,
                   ao_address = contract_address (getUnlockSwapPurchaserContract E),
                   totalAmountToApprove = amountInMax s\<rparr>
      | None \<Rightarrow> \<lparr>ao_erc20Address = r_erc20Address r,
                 ao_address = Some lockAddr,
                 totalAmountToApprove = r_actualAmount r\<rparr>)"

definition approve :: "env \<Rightarrow> approvalOptions \<Rightarrow> unit run" where
  "approve E ao =
     (if truthy_string (ao_erc20Address ao) \<and> ao_erc20Address ao \<noteq> Some ZERO
      then await (ApproveAllowance ao) (approveAllowance E ao)
      else done_with ())"

text \<open>Lines 593-610 and 629-646: the contract call, estimated first and then sent.\<close>

definition contractCallOf :: "address \<Rightarrow> resolved \<Rightarrow> swapParams option \<Rightarrow> contractCall" where
  "contractCallOf lockAddr r sw =
     (case sw of
        Some s \<Rightarrow>
          SwapAndCall lockAddr
            (if truthy_string (srcTokenAddress s) then the (srcTokenAddress s) else ZERO)
            (r_actualAmount r) (amountInMax s) (uniswapRouter s) (swapCallData s) (r_callData r)
      | None \<Rightarrow> Purchase (r_actualAmount r) (r_owner r) (r_referrer r) (r_data r))"

text \<open>Lines 578-627: the gas estimate, with its \<open>try\<close>/\<open>catch\<close>.\<close>

definition deleteFees :: "transactionOptions \<Rightarrow> transactionOptions" where
  "deleteFees opts = opts\<lparr>maxFeePerGas := None, maxPriorityFeePerGas := None, gasPrice := None\<rparr>"

definition withFees :: "feeData \<Rightarrow> transactionOptions \<Rightarrow> transactionOptions" where
  "withFees fd opts =
     (if truthy_bigint (fd_maxFeePerGas fd) \<and> truthy_bigint (fd_maxPriorityFeePerGas fd)
      then opts\<lparr>maxFeePerGas := map_option BigInt (fd_maxFeePerGas fd),
                maxPriorityFeePerGas := map_option BigInt (fd_maxPriorityFeePerGas fd)\<rparr>
      else opts\<lparr>gasPrice := map_option BigInt (fd_gasPrice fd)\<rparr>)"

definition estimate :: "env \<Rightarrow> contractCall \<Rightarrow> transactionOptions \<Rightarrow> transactionOptions run" where
  "estimate E c opts =
     (if \<not> truthy_quantity (gasLimit opts) then
        (case getFeeData E of
           Inl e \<Rightarrow> ([GetFeeData], Inr (deleteFees opts))
         | Inr fd \<Rightarrow>
             (let opts1 = withFees fd opts in
              case estimateGas E c opts1 of
                Inl e \<Rightarrow> ([GetFeeData, EstimateGas c opts1], Inr (deleteFees opts1))
              | Inr g \<Rightarrow>
                  ([GetFeeData, EstimateGas c opts1],
                   Inr ((deleteFees opts1)\<lparr>gasLimit := Some (BigInt (bigint_div (int g * 13) 10))\<rparr>))))
      else done_with opts)"

text \<open>
  Lines 657-674: the reading of the receipt. The \<open>map\<close> of lines 663-667 parses every
  log of the lock's address, in order, before \<open>find\<close> looks at any result; a raise of
  the parser ends it.
\<close>

fun parsedLogs :: "address \<Rightarrow> lockContract \<Rightarrow> log list \<Rightarrow> error + logDescription option list" where
  "parsedLogs lockAddr lock [] = Inr []"
| "parsedLogs lockAddr lock (l # ls) =
     (case (if toLowerCase (log_address l) \<noteq> toLowerCase lockAddr then Inr None
            else parseLog lock l) of
        Inl e \<Rightarrow> Inl e
      | Inr evt \<Rightarrow>
          (case parsedLogs lockAddr lock ls of
             Inl e \<Rightarrow> Inl e
           | Inr evts \<Rightarrow> Inr (evt # evts)))"

definition isTransfer :: "logDescription option \<Rightarrow> bool" where
  "isTransfer evt = (case evt of None \<Rightarrow> False | Some d \<Rightarrow> fragment_name d = Some ''Transfer'')"

definition transferEvent ::
  "address \<Rightarrow> lockContract \<Rightarrow> receipt \<Rightarrow> error + logDescription option option" where
  "transferEvent lockAddr lock r =
     (case parsedLogs lockAddr lock (logs r) of
        Inl e \<Rightarrow> Inl e
      | Inr evts \<Rightarrow> Inr (find isTransfer evts))"

definition confirmation :: "address \<Rightarrow> lockContract \<Rightarrow> receipt \<Rightarrow> error + string option" where
  "confirmation lockAddr lock r =
     (if status r = Some 0 then Inl TransactionFailed
      else case transferEvent lockAddr lock r of
             Inl e \<Rightarrow> Inl e
           | Inr (Some (Some d)) \<Rightarrow> Inr (Some (bigint_toString (tokenId d)))
           | Inr _ \<Rightarrow> Inr None)"

text \<open>Lines 502-548: the lock, the defaults of the arguments, the amount, the call data.\<close>

definition resolve :: "env \<Rightarrow> purchaseParams \<Rightarrow> resolved run" where
  "resolve E p =
     and_then (await (GetLockContract (lockAddress p)) (getLockContract E (lockAddress p))) (\<lambda>lock.
     and_then (if \<not> truthy_string (owner p) then await SignerGetAddress (signerGetAddress E)
               else done_with (the (owner p))) (\<lambda>own.
     let ref = (if \<not> truthy_string (referrer p) then ZERO else the (referrer p));
         dat = (if \<not> truthy_string (data p) then ''0x'' else the (data p))
     in
     and_then (if \<not> truthy_string (erc20Address p)
               then and_then (await LockTokenAddress (tokenAddress lock)) (\<lambda>a. done_with (Some a))
               else done_with (erc20Address p)) (\<lambda>erc20.
     and_then (actualAmountOf E lock (keyPrice p) (decimals p) erc20) (\<lambda>actualAmount.
       done_with \<lparr>r_lock = lock, r_owner = own, r_referrer = ref, r_data = dat,
                  r_erc20Address = erc20, r_actualAmount = actualAmount,
                  r_callData = encodePurchase lock actualAmount own ref dat\<rparr>))))"

text \<open>Lines 578-675: estimate, send, report the hash, wait, read the receipt.\<close>

definition finish ::
  "env \<Rightarrow> address \<Rightarrow> lockContract \<Rightarrow> contractCall \<Rightarrow> transactionOptions \<Rightarrow> string option run" where
  "finish E lockAddr lock c opts =
     and_then (estimate E c opts) (\<lambda>opts'.
     and_then (await (SendTransaction c opts') (sendTransaction E c opts')) (\<lambda>hash.
     and_then (case callback E of
                 None \<Rightarrow> done_with ()
               | Some cb \<Rightarrow> await (Callback hash) (cb hash)) (\<lambda>_.
     and_then (await (WaitForTransaction hash) (waitForTransaction E hash)) (\<lambda>receipt.
       ([], confirmation lockAddr lock receipt)))))"

text \<open>The whole function, lines 488-675.\<close>

definition purchaseKey ::
  "env \<Rightarrow> purchaseParams \<Rightarrow> transactionOptions \<Rightarrow> string option run" where
  "purchaseKey E p transactionOptions =
     and_then (resolve E p) (\<lambda>r.
     and_then (approve E (approvalOptionsOf E (lockAddress p) r (swap p))) (\<lambda>_.
       finish E (lockAddress p) (r_lock r)
         (contractCallOf (lockAddress p) r (swap p))
         (withValue r (swap p) transactionOptions)))"

text \<open>The block of the source an event belongs to.\<close>

fun stage :: "event \<Rightarrow> nat" where
  "stage (GetLockContract _) = 0"
| "stage SignerGetAddress = 0"
| "stage LockTokenAddress = 0"
| "stage LockKeyPrice = 0"
| "stage (GetErc20Decimals _) = 0"
| "stage (ApproveAllowance _) = 1"
| "stage GetFeeData = 2"
| "stage (EstimateGas _ _) = 2"
| "stage (SendTransaction _ _) = 3"
| "stage (Callback _) = 4"
| "stage (WaitForTransaction _) = 5"

section \<open>The checkout component that builds the request\<close>

text \<open>
  \<open>ConfirmSwapAndPurchase\<close>, lines 218-385. The session context and the results of the
  pricing and purchase-data hooks are the input. \<open>quote_toFixed\<close> is
  \<open>route.quote.toFixed()\<close>; \<open>amount_toString\<close> is \<open>item.amount.toString()\<close>;
  \<open>recurringPaymentAmount\<close> is the number of lines 255-257 (a \<open>NaN\<close> there is falsy, as
  \<open>0\<close> is, and is written \<open>Some 0\<close>); \<open>totalApproval\<close> is the value of lines 248-253.
\<close>

record route =
  quote_toFixed :: string
  inputCurrency_decimals :: nat
  inputCurrency_address :: "address option"
  swapRouter :: address
  swapCalldata :: string
  route_value :: "bigNumberish option"

record priceItem =
  amount_toString :: string

record pricingData =
  prices :: "priceItem list"

record checkoutContext =
  ctx_lockAddress :: address
  ctx_lockNetwork :: nat
  ctx_keyPrice :: string
  recipients :: "address list"
  keyManagers :: "address list option"
  renew :: bool
  ctx_route :: route
  purchaseData :: "string list option"
  ctx_pricingData :: "pricingData option"
  recurringPaymentAmount :: "nat option"
  totalApproval :: "string option"

record purchaseKeysParams =
  pk_lockAddress :: address
  pk_keyPrices :: "string list"
  pk_owners :: "address list"
  pk_data :: "string list option"
  pk_keyManagers :: "address list option"
  pk_recurringPayments :: "nat list option"
  pk_referrers :: "address list"
  pk_totalApproval :: "string option"
  pk_swap :: swapParams

record extendKeyParams =
  ek_lockAddress :: address
  ek_keyPrice :: string
  ek_owner :: "address option"
  ek_data :: string
  ek_referrer :: "address option"
  ek_swap :: swapParams

datatype uiEvent =
  SetIsConfirming bool
| GetWalletService nat
| ExtendKey extendKeyParams
| PurchaseKeys purchaseKeysParams
| OnError error

record walletService =
  extendKey :: "extendKeyParams \<Rightarrow> error + unit"
  purchaseKeys :: "purchaseKeysParams \<Rightarrow> error + unit"

record uiEnv =
  parseUnits :: "string \<Rightarrow> nat \<Rightarrow> error + int"
  getReferrer :: "address \<Rightarrow> address"
  getWalletService :: "nat \<Rightarrow> error + walletService"

text \<open>Lines 259-261.\<close>

definition recurringPayments :: "checkoutContext \<Rightarrow> nat list option" where
  "recurringPayments ctx =
     (case recurringPaymentAmount ctx of
        None \<Rightarrow> None
      | Some a \<Rightarrow> if a \<noteq> 0 then Some (replicate (length (recipients ctx)) a) else None)"

text \<open>
  Lines 319-321. The pricing data is present here (line 314 returned otherwise) and an
  array is truthy, so the right operand of \<open>||\<close> is never taken.
\<close>

definition keyPricesOf :: "checkoutContext \<Rightarrow> pricingData \<Rightarrow> string list" where
  "keyPricesOf ctx pd =
     (case Some (map amount_toString (prices pd)) of
        Some ps \<Rightarrow> ps
      | None \<Rightarrow> replicate (length (recipients ctx)) (ctx_keyPrice ctx))"

text \<open>Lines 323-325.\<close>

definition referrersOf :: "uiEnv \<Rightarrow> checkoutContext \<Rightarrow> address list" where
  "referrersOf U ctx = map (getReferrer U) (recipients ctx)"

text \<open>Lines 339-352: the swap, with its maximum input amount.\<close>

definition swapOf :: "uiEnv \<Rightarrow> checkoutContext \<Rightarrow> error + swapParams" where
  "swapOf U ctx =
     (case parseUnits U (quote_toFixed (ctx_route ctx)) (inputCurrency_decimals (ctx_route ctx)) of
        Inl e \<Rightarrow> Inl e
      | Inr q \<Rightarrow>
          Inr \<lparr>srcTokenAddress = inputCurrency_address (ctx_route ctx),
               uniswapRouter = swapRouter (ctx_route ctx),
               swapCallData = swapCalldata (ctx_route ctx),
               swapValue = route_value (ctx_route ctx),
               amountInMax = bigint_div (q * 101) 100\<rparr>)"

text \<open>Lines 356-363 and 365-376: the two requests.\<close>

definition extendKeyRequest :: "uiEnv \<Rightarrow> checkoutContext \<Rightarrow> swapParams \<Rightarrow> extendKeyParams" where
  "extendKeyRequest U ctx sw =
     \<lparr>ek_lockAddress = ctx_lockAddress ctx,
      ek_keyPrice = ctx_keyPrice ctx,
      ek_owner = (case recipients ctx of [] \<Rightarrow> None | r # _ \<Rightarrow> Some r),
      ek_data = (case purchaseData ctx of
                   Some (d # _) \<Rightarrow> if d \<noteq> [] then d else ''0x''
                 | _ \<Rightarrow> ''0x''),
      ek_referrer = (case referrersOf U ctx of [] \<Rightarrow> None | r # _ \<Rightarrow> Some r),
      ek_swap = sw\<rparr>"

definition purchaseKeysRequest ::
  "uiEnv \<Rightarrow> checkoutContext \<Rightarrow> pricingData \<Rightarrow> swapParams \<Rightarrow> purchaseKeysParams" where
  "purchaseKeysRequest U ctx pd sw =
     \<lparr>pk_lockAddress = ctx_lockAddress ctx,
      pk_keyPrices = keyPricesOf ctx pd,
      pk_owners = recipients ctx,
      pk_data = purchaseData ctx,
      pk_keyManagers = (case keyManagers ctx of
                          None \<Rightarrow> None
                        | Some ks \<Rightarrow> if length ks \<noteq> 0 then Some ks else None),
      pk_recurringPayments = recurringPayments ctx,
      pk_referrers = referrersOf U ctx,
      pk_totalApproval = totalApproval ctx,
      pk_swap = sw\<rparr>"

text \<open>Lines 313-385: \<open>onConfirmCrypto\<close>, as the list of the effects it has.\<close>

definition onConfirmCrypto :: "uiEnv \<Rightarrow> checkoutContext \<Rightarrow> uiEvent list" where
  "onConfirmCrypto U ctx =
     (case ctx_pricingData ctx of
        None \<Rightarrow> []
      | Some pd \<Rightarrow>
          SetIsConfirming True #
          (case swapOf U ctx of
             Inl e \<Rightarrow> [SetIsConfirming False, OnError e]
           | Inr sw \<Rightarrow>
               GetWalletService (ctx_lockNetwork ctx) #
               (case getWalletService U (ctx_lockNetwork ctx) of
                  Inl e \<Rightarrow> [SetIsConfirming False, OnError e]
                | Inr ws \<Rightarrow>
                    if renew ctx then
                      ExtendKey (extendKeyRequest U ctx sw) #
                      (case extendKey ws (extendKeyRequest U ctx sw) of
                         Inl e \<Rightarrow> [SetIsConfirming False, OnError e]
                       | Inr _ \<Rightarrow> [])
                    else
                      PurchaseKeys (purchaseKeysRequest U ctx pd sw) #
                      (case purchaseKeys ws (purchaseKeysRequest U ctx pd sw) of
                         Inl e \<Rightarrow> [SetIsConfirming False, OnError e]
                       | Inr _ \<Rightarrow> []))))"

section \<open>Notions the statements use\<close>

text \<open>
  A log is emitted by a contract when its address is the contract's; two spellings of a
  hexadecimal address that differ in letter case name the same address.
\<close>

definition emittedBy :: "address \<Rightarrow> log \<Rightarrow> bool" where
  "emittedBy a l = (toLowerCase (log_address l) = toLowerCase a)"

definition parsesAsTransfer :: "lockContract \<Rightarrow> log \<Rightarrow> bool" where
  "parsesAsTransfer lock l = (case parseLog lock l of Inl e \<Rightarrow> False | Inr evt \<Rightarrow> isTransfer evt)"

definition targetTransfer :: "address \<Rightarrow> lockContract \<Rightarrow> log \<Rightarrow> bool" where
  "targetTransfer a lock l = (emittedBy a l \<and> parsesAsTransfer lock l)"

text \<open>A log of the contract on which the parser raises.\<close>

definition targetRaise :: "address \<Rightarrow> lockContract \<Rightarrow> log \<Rightarrow> bool" where
  "targetRaise a lock l =
     (emittedBy a l \<and> (case parseLog lock l of Inl e \<Rightarrow> True | Inr evt \<Rightarrow> False))"

section \<open>Concrete scenarios\<close>

text \<open>
  A lock priced in native currency, with a default price of 5 base units. Its parser reads
  a log whose first topic is \<open>Transfer\<close> as a transfer of the token whose identifier is
  the length of the log's data, and raises when such a log has no data.
\<close>

definition nativeLock :: lockContract where
  "nativeLock =
     \<lparr>tokenAddress = Inr ZERO,
      lock_keyPrice = Inr 5,
      encodePurchase = (\<lambda>amount own ref dat. ''0xca11''),
      parseLog = (\<lambda>l. case log_topics l of
                         [] \<Rightarrow> Inr None
                       | t # _ \<Rightarrow> if t = ''Transfer''
                                  then if log_data l = [] then Inl (Raised ''data out of bounds'')
                                       else Inr (Some \<lparr>fragment_name = Some ''Transfer'',
                                                        tokenId = int (length (log_data l))\<rparr>)
                                  else Inr None)\<rparr>"

text \<open>
  A receipt of a successful purchase: the payment token's own transfer log first, then
  the lock's, whose address is written in lower case.
\<close>

definition minedReceipt :: receipt where
  "minedReceipt =
     \<lparr>status = Some 1,
      logs = [\<lparr>log_address = ''0x7de1'', log_topics = [''Transfer''], log_data = ''xxx''\<rparr>,
              \<lparr>log_address = ''0xabc1'', log_topics = [''Transfer''], log_data = ''xxxxxxx''\<rparr>]\<rparr>"

text \<open>
  A receipt of a successful purchase in which the lock's transfer log is followed by a
  log of the lock that the parser cannot decode.
\<close>

definition oddReceipt :: receipt where
  "oddReceipt =
     \<lparr>status = Some 1,
      logs = [\<lparr>log_address = ''0xabc1'', log_topics = [''Transfer''], log_data = ''xxxxxxx''\<rparr>,
              \<lparr>log_address = ''0xabc1'', log_topics = [''Transfer''], log_data = []\<rparr>]\<rparr>"

text \<open>
  The swap-purchaser contract as an object of the library whose call style lines 594 and
  630 use (\<open>swapAndCall.estimateGas(...)\<close>): it has a target and no property \<open>address\<close>.
\<close>

definition swapPurchaser :: contractObject where
  "swapPurchaser = \<lparr>contract_target = ''0x5a'', contract_address = None\<rparr>"

definition healthyEnv :: env where
  "healthyEnv =
     \<lparr>getLockContract = (\<lambda>a. Inr nativeLock),
      getUnlockSwapPurchaserContract = swapPurchaser,
      signerGetAddress = Inr ''0x51'',
      getErc20Decimals = (\<lambda>a. Inr 6),
      toDecimal = (\<lambda>s d. Inr 1000),
      approveAllowance = (\<lambda>ao. Inr ()),
      getFeeData = Inr \<lparr>fd_gasPrice = Some 7, fd_maxFeePerGas = Some 30,
                        fd_maxPriorityFeePerGas = Some 2\<rparr>,
      estimateGas = (\<lambda>c opts. Inr 100007),
      sendTransaction = (\<lambda>c opts. Inr ''0xh1''),
      callback = None,
      waitForTransaction = (\<lambda>h. Inr minedReceipt)\<rparr>"

definition plainParams :: purchaseParams where
  "plainParams =
     \<lparr>lockAddress = ''0xAbC1'', owner = Some ''0x0e'', keyPrice = None, erc20Address = None,
      decimals = None, referrer = None, data = None, swap = None\<rparr>"

definition noOptions :: transactionOptions where
  "noOptions =
     \<lparr>txValue = None, gasLimit = None, maxFeePerGas = None, maxPriorityFeePerGas = None,
      gasPrice = None\<rparr>"

text \<open>A swap route that pays from a token and forwards a native value of zero.\<close>

definition tokenSwap :: swapParams where
  "tokenSwap =
     \<lparr>srcTokenAddress = Some ''0x70'', uniswapRouter = ''0x12'', swapCallData = ''0x5c'',
      swapValue = Some (BigInt 0), amountInMax = 1010\<rparr>"

definition swapPurchaseParams :: purchaseParams where
  "swapPurchaseParams = plainParams\<lparr>swap := Some tokenSwap\<rparr>"

text \<open>A purchase priced in a token, with the price and no decimals given.\<close>

definition tokenParams :: purchaseParams where
  "tokenParams = plainParams\<lparr>keyPrice := Some ''1.5'', erc20Address := Some ''0x70''\<rparr>"

text \<open>The node answers the fee-data request and refuses the gas estimate.\<close>

definition noEstimateEnv :: env where
  "noEstimateEnv = healthyEnv\<lparr>estimateGas := (\<lambda>c opts. Inl (Raised ''cannot estimate gas''))\<rparr>"

text \<open>Options in which the caller chose the gas limit and a fee.\<close>

definition suppliedGasOptions :: transactionOptions where
  "suppliedGasOptions =
     noOptions\<lparr>gasLimit := Some (BigInt 300000), maxFeePerGas := Some (BigInt 9)\<rparr>"

text \<open>The same purchase, mined but reverted: the receipt keeps its logs.\<close>

definition revertedEnv :: env where
  "revertedEnv = healthyEnv\<lparr>waitForTransaction := (\<lambda>h. Inr (minedReceipt\<lparr>status := Some 0\<rparr>))\<rparr>"

text \<open>The same purchase, mined with the receipt that holds the undecodable log.\<close>

definition oddLogEnv :: env where
  "oddLogEnv = healthyEnv\<lparr>waitForTransaction := (\<lambda>h. Inr oddReceipt)\<rparr>"

text \<open>
  A checkout session with two recipients, one key manager and one price, paying through
  a swap quoted at 1000 base units.
\<close>

definition quotedRoute :: route where
  "quotedRoute =
     \<lparr>quote_toFixed = ''1000'', inputCurrency_decimals = 0,
      inputCurrency_address = Some ''0x70'', swapRouter = ''0x12'', swapCalldata = ''0x5c'',
      route_value = Some (Str ''0x00'')\<rparr>"

definition twoRecipients :: checkoutContext where
  "twoRecipients =
     \<lparr>ctx_lockAddress = ''0xAbC1'', ctx_lockNetwork = 5, ctx_keyPrice = ''1'',
      recipients = [''0x0e'', ''0x0f''],
      keyManagers = Some [''0x3a''],
      renew = False,
      ctx_route = quotedRoute,
      purchaseData = Some [''0x''],
      ctx_pricingData = Some \<lparr>prices = [\<lparr>amount_toString = ''1''\<rparr>]\<rparr>,
      recurringPaymentAmount = Some 12,
      totalApproval = None\<rparr>"

definition acceptingWallet :: walletService where
  "acceptingWallet = \<lparr>extendKey = (\<lambda>req. Inr ()), purchaseKeys = (\<lambda>req. Inr ())\<rparr>"

definition checkoutEnv :: uiEnv where
  "checkoutEnv =
     \<lparr>parseUnits = (\<lambda>s d. if s = ''1000'' \<and> d = 0 then Inr 1000
                          else Inl (Raised ''invalid decimal'')),
      getReferrer = (\<lambda>recipient. ''0x4e''),
      getWalletService = (\<lambda>network. Inr acceptingWallet)\<rparr>"

section \<open>Facts about runs\<close>

lemma fst_and_then:
  "fst (and_then m f) = fst m @ (case snd m of Inl e \<Rightarrow> [] | Inr x \<Rightarrow> fst (f x))"
  by (auto simp: and_then_def split: prod.splits sum.splits)

lemma snd_and_then:
  "snd (and_then m f) = (case snd m of Inl e \<Rightarrow> Inl e | Inr x \<Rightarrow> snd (f x))"
  by (auto simp: and_then_def split: prod.splits sum.splits)

lemma fst_await [simp]: "fst (await ev a) = [ev]"
  by (simp add: await_def)

lemma snd_await [simp]: "snd (await ev a) = a"
  by (simp add: await_def)

lemma fst_done_with [simp]: "fst (done_with x) = []"
  by (simp add: done_with_def)

lemma snd_done_with [simp]: "snd (done_with x) = Inr x"
  by (simp add: done_with_def)

section \<open>Facts about the blocks\<close>

lemma actualAmountOf_stage:
  "ev \<in> set (fst (actualAmountOf E lock price decs erc20)) \<Longrightarrow> stage ev = 0"
  by (auto simp: actualAmountOf_def fst_and_then split: if_splits option.splits sum.splits)

lemma resolve_stage: "ev \<in> set (fst (resolve E p)) \<Longrightarrow> stage ev = 0"
  by (auto simp: resolve_def fst_and_then Let_def dest: actualAmountOf_stage
           split: if_splits sum.splits)

lemma resolve_lock:
  "snd (resolve E p) = Inr r \<Longrightarrow> getLockContract E (lockAddress p) = Inr (r_lock r)"
  by (auto simp: resolve_def snd_and_then Let_def split: if_splits sum.splits)

lemma approve_events:
  "fst (approve E ao) =
     (if truthy_string (ao_erc20Address ao) \<and> ao_erc20Address ao \<noteq> Some ZERO
      then [ApproveAllowance ao] else [])"
  by (simp add: approve_def)

lemma estimate_events:
  "fst (estimate E c opts) =
     (if truthy_quantity (gasLimit opts) then []
      else case getFeeData E of
             Inl e \<Rightarrow> [GetFeeData]
           | Inr fd \<Rightarrow> [GetFeeData, EstimateGas c (withFees fd opts)])"
  by (auto simp: estimate_def Let_def split: sum.splits)

lemma estimate_result:
  "snd (estimate E c opts) =
     Inr (if truthy_quantity (gasLimit opts) then opts
          else case getFeeData E of
                 Inl e \<Rightarrow> deleteFees opts
               | Inr fd \<Rightarrow>
                   (case estimateGas E c (withFees fd opts) of
                      Inl e \<Rightarrow> deleteFees (withFees fd opts)
                    | Inr g \<Rightarrow> (deleteFees (withFees fd opts))
                        \<lparr>gasLimit := Some (BigInt (bigint_div (int g * 13) 10))\<rparr>))"
  by (auto simp: estimate_def Let_def split: sum.splits)

lemma estimate_stage: "ev \<in> set (fst (estimate E c opts)) \<Longrightarrow> stage ev = 2"
  by (auto simp: estimate_events split: sum.splits if_splits)

lemma finish_send:
  "SendTransaction c' o' \<in> set (fst (finish E la lock c opts)) \<longleftrightarrow>
     c' = c \<and> snd (estimate E c opts) = Inr o'"
  by (auto simp: finish_def fst_and_then estimate_result dest: estimate_stage
           split: sum.splits option.splits)

lemma finish_stage2:
  "stage ev = 2 \<Longrightarrow>
   ev \<in> set (fst (finish E la lock c opts)) \<longleftrightarrow> ev \<in> set (fst (estimate E c opts))"
  by (auto simp: finish_def fst_and_then estimate_result split: sum.splits option.splits)

lemma finish_wait:
  "WaitForTransaction h \<in> set (fst (finish E la lock c opts)) \<Longrightarrow>
   snd (finish E la lock c opts) =
     (case waitForTransaction E h of Inl e \<Rightarrow> Inl e | Inr r \<Rightarrow> confirmation la lock r)"
  by (auto simp: finish_def fst_and_then snd_and_then dest: estimate_stage
           split: sum.splits option.splits)

section \<open>Facts about the whole function\<close>

lemma purchaseKey_late:
  assumes "2 \<le> stage ev"
  shows "ev \<in> set (fst (purchaseKey E p opts)) \<longleftrightarrow>
     (\<exists>r. snd (resolve E p) = Inr r \<and>
          snd (approve E (approvalOptionsOf E (lockAddress p) r (swap p))) = Inr () \<and>
          ev \<in> set (fst (finish E (lockAddress p) (r_lock r)
                  (contractCallOf (lockAddress p) r (swap p)) (withValue r (swap p) opts))))"
proof (cases "snd (resolve E p)")
  case (Inl e)
  with assms show ?thesis
    by (auto simp: purchaseKey_def fst_and_then dest: resolve_stage)
next
  case (Inr r)
  let ?ao = "approvalOptionsOf E (lockAddress p) r (swap p)"
  from assms have notres: "ev \<notin> set (fst (resolve E p))"
    by (auto dest: resolve_stage)
  from assms have notapp: "ev \<notin> set (fst (approve E ?ao))"
    by (auto simp: approve_events split: if_splits)
  show ?thesis
  proof (cases "snd (approve E ?ao)")
    case (Inl e)
    with Inr notres notapp show ?thesis
      by (simp add: purchaseKey_def fst_and_then)
  next
    case (Inr u)
    with \<open>snd (resolve E p) = Inr r\<close> notres notapp show ?thesis
      by (simp add: purchaseKey_def fst_and_then)
  qed
qed

lemma purchaseKey_result:
  assumes "snd (resolve E p) = Inr r"
    and "snd (approve E (approvalOptionsOf E (lockAddress p) r (swap p))) = Inr ()"
  shows "snd (purchaseKey E p opts) =
     snd (finish E (lockAddress p) (r_lock r)
            (contractCallOf (lockAddress p) r (swap p)) (withValue r (swap p) opts))"
  using assms by (simp add: purchaseKey_def snd_and_then)

lemma purchaseKey_wait:
  assumes "WaitForTransaction h \<in> set (fst (purchaseKey E p opts))"
  shows "\<exists>lock. getLockContract E (lockAddress p) = Inr lock \<and>
     snd (purchaseKey E p opts) =
       (case waitForTransaction E h of
          Inl e \<Rightarrow> Inl e
        | Inr r \<Rightarrow> confirmation (lockAddress p) lock r)"
proof -
  have "2 \<le> stage (WaitForTransaction h)" by simp
  from purchaseKey_late [OF this, of E p opts] assms obtain r where
    r: "snd (resolve E p) = Inr r" and
    a: "snd (approve E (approvalOptionsOf E (lockAddress p) r (swap p))) = Inr ()" and
    ev: "WaitForTransaction h \<in> set (fst (finish E (lockAddress p) (r_lock r)
             (contractCallOf (lockAddress p) r (swap p)) (withValue r (swap p) opts)))"
    by auto
  from resolve_lock [OF r] finish_wait [OF ev] purchaseKey_result [OF r a, of opts]
  show ?thesis by simp
qed

section \<open>Facts about the reading of the receipt\<close>

lemma parsedLogs_raise:
  "find (targetRaise la lock) ls = Some l \<Longrightarrow>
   \<exists>e. parseLog lock l = Inl e \<and> parsedLogs la lock ls = Inl e"
proof (induction ls)
  case Nil
  then show ?case by simp
next
  case (Cons x xs)
  show ?case
  proof (cases "targetRaise la lock x")
    case True
    with Cons.prems have "l = x" by simp
    with True show ?thesis
      by (auto simp: targetRaise_def emittedBy_def split: sum.splits)
  next
    case False
    with Cons obtain e where "parseLog lock l = Inl e" "parsedLogs la lock xs = Inl e"
      by auto
    with False show ?thesis
      by (auto simp: targetRaise_def emittedBy_def split: sum.splits)
  qed
qed

lemma parsedLogs_find:
  "find (targetRaise la lock) ls = None \<Longrightarrow>
   \<exists>evts. parsedLogs la lock ls = Inr evts \<and>
     (case find (targetTransfer la lock) ls of
        None \<Rightarrow> find isTransfer evts = None
      | Some l \<Rightarrow> \<exists>d. parseLog lock l = Inr (Some d) \<and> find isTransfer evts = Some (Some d))"
proof (induction ls)
  case Nil
  then show ?case by simp
next
  case (Cons x xs)
  from Cons.prems have nr: "\<not> targetRaise la lock x" and rest: "find (targetRaise la lock) xs = None"
    by (auto split: if_splits)
  from Cons.IH [OF rest] obtain evts where
    evts: "parsedLogs la lock xs = Inr evts" and
    found: "case find (targetTransfer la lock) xs of
        None \<Rightarrow> find isTransfer evts = None
      | Some l \<Rightarrow> \<exists>d. parseLog lock l = Inr (Some d) \<and> find isTransfer evts = Some (Some d)"
    by auto
  show ?case
  proof (cases "emittedBy la x")
    case False
    then have f: "find (targetTransfer la lock) (x # xs) = find (targetTransfer la lock) xs"
      by (simp add: targetTransfer_def)
    have g: "find isTransfer (None # evts) = find isTransfer evts"
      by (simp add: isTransfer_def)
    from False have pl: "parsedLogs la lock (x # xs) = Inr (None # evts)"
      by (simp add: emittedBy_def evts)
    show ?thesis
    proof (intro exI conjI)
      show "parsedLogs la lock (x # xs) = Inr (None # evts)"
        by (rule pl)
      show "case find (targetTransfer la lock) (x # xs) of
          None \<Rightarrow> find isTransfer (None # evts) = None
        | Some l \<Rightarrow> \<exists>d. parseLog lock l = Inr (Some d) \<and>
            find isTransfer (None # evts) = Some (Some d)"
        unfolding f g by (rule found)
    qed
  next
    case True
    with nr obtain evt where evt: "parseLog lock x = Inr evt"
      by (auto simp: targetRaise_def split: sum.splits)
    from True evt have pl: "parsedLogs la lock (x # xs) = Inr (evt # evts)"
      by (simp add: emittedBy_def evts)
    from True evt have tt: "targetTransfer la lock x \<longleftrightarrow> isTransfer evt"
      by (simp add: targetTransfer_def parsesAsTransfer_def)
    show ?thesis
    proof (cases "isTransfer evt")
      case yes: True
      then obtain d where d: "evt = Some d"
        by (auto simp: isTransfer_def split: option.splits)
      from yes tt have f: "find (targetTransfer la lock) (x # xs) = Some x"
        by simp
      from yes have g: "find isTransfer (evt # evts) = Some evt"
        by simp
      show ?thesis
      proof (intro exI conjI)
        show "parsedLogs la lock (x # xs) = Inr (evt # evts)"
          by (rule pl)
        show "case find (targetTransfer la lock) (x # xs) of
            None \<Rightarrow> find isTransfer (evt # evts) = None
          | Some l \<Rightarrow> \<exists>d. parseLog lock l = Inr (Some d) \<and>
              find isTransfer (evt # evts) = Some (Some d)"
          unfolding f g using evt d by simp
      qed
    next
      case no: False
      with tt have f: "find (targetTransfer la lock) (x # xs) = find (targetTransfer la lock) xs"
        by simp
      from no have g: "find isTransfer (evt # evts) = find isTransfer evts"
        by simp
      show ?thesis
      proof (intro exI conjI)
        show "parsedLogs la lock (x # xs) = Inr (evt # evts)"
          by (rule pl)
        show "case find (targetTransfer la lock) (x # xs) of
            None \<Rightarrow> find isTransfer (evt # evts) = None
          | Some l \<Rightarrow> \<exists>d. parseLog lock l = Inr (Some d) \<and>
              find isTransfer (evt # evts) = Some (Some d)"
          unfolding f g by (rule found)
      qed
    qed
  qed
qed

lemma find_raise_emitted:
  "find (targetRaise la lock) (filter (emittedBy la) ls) = find (targetRaise la lock) ls"
  by (induction ls) (auto simp: targetRaise_def)

lemma find_emitted:
  "find (targetTransfer la lock) (filter (emittedBy la) ls) = find (targetTransfer la lock) ls"
  by (induction ls) (auto simp: targetTransfer_def)

lemma confirmation_find:
  "confirmation la lock r =
     (if status r = Some 0 then Inl TransactionFailed
      else case find (targetRaise la lock) (logs r) of
             Some l \<Rightarrow> (case parseLog lock l of Inl e \<Rightarrow> Inl e | Inr evt \<Rightarrow> Inr None)
           | None \<Rightarrow>
               (case find (targetTransfer la lock) (logs r) of
                  None \<Rightarrow> Inr None
                | Some l \<Rightarrow>
                    (case parseLog lock l of
                       Inr (Some d) \<Rightarrow> Inr (Some (bigint_toString (tokenId d)))
                     | _ \<Rightarrow> Inr None)))"
proof (cases "find (targetRaise la lock) (logs r)")
  case (Some l)
  from parsedLogs_raise [OF this] Some show ?thesis
    by (auto simp: confirmation_def transferEvent_def)
next
  case None
  from parsedLogs_find [OF this] None show ?thesis
    by (auto simp: confirmation_def transferEvent_def split: option.splits)
qed

lemma confirmation_filter:
  "confirmation la lock (r\<lparr>logs := filter (emittedBy la) (logs r)\<rparr>) = confirmation la lock r"
proof -
  let ?r = "r\<lparr>logs := filter (emittedBy la) (logs r)\<rparr>"
  have 1: "find (targetRaise la lock) (logs ?r) = find (targetRaise la lock) (logs r)"
    by (simp add: find_raise_emitted)
  have 2: "find (targetTransfer la lock) (logs ?r) = find (targetTransfer la lock) (logs r)"
    by (simp add: find_emitted)
  have 3: "status ?r = status r"
    by simp
  show ?thesis
    unfolding confirmation_find 1 2 3 ..
qed

section \<open>Evaluation of the scenarios\<close>

lemmas scenario_defs =
  healthyEnv_def plainParams_def noOptions_def nativeLock_def minedReceipt_def tokenSwap_def
  revertedEnv_def swapPurchaseParams_def tokenParams_def noEstimateEnv_def
  suppliedGasOptions_def oddReceipt_def oddLogEnv_def swapPurchaser_def

lemmas checkout_defs =
  onConfirmCrypto_def swapOf_def purchaseKeysRequest_def extendKeyRequest_def keyPricesOf_def
  referrersOf_def recurringPayments_def bigint_div_def quotedRoute_def twoRecipients_def
  acceptingWallet_def checkoutEnv_def

lemmas run_defs =
  purchaseKey_def resolve_def finish_def and_then_def await_def done_with_def
  actualAmountOf_def approve_def approvalOptionsOf_def estimate_def withValue_def
  contractCallOf_def confirmation_def transferEvent_def isTransfer_def toLowerCase_def
  lower_char_def bigint_toString_def digit_char_def deleteFees_def withFees_def ZERO_def
  bigint_div_def Let_def

section \<open>The confirmation resolver\<close>

text \<open>
  Claim C1, as it is written, fails: the parser runs on every log of the lock before any
  result is looked at, and the call is rejected when it raises on one of them. Here the
  receipt has status 1 and holds a \<open>Transfer\<close> log of the lock, and the run returns
  neither its token identifier nor \<open>null\<close>.
\<close>

theorem receipt_success_parser_raises:
  "WaitForTransaction ''0xh1'' \<in> set (fst (purchaseKey oddLogEnv plainParams noOptions)) \<and>
   waitForTransaction oddLogEnv ''0xh1'' = Inr oddReceipt \<and>
   status oddReceipt = Some 1 \<and>
   targetTransfer (lockAddress plainParams) nativeLock (logs oddReceipt ! 0) \<and>
   snd (purchaseKey oddLogEnv plainParams noOptions) = Inl (Raised ''data out of bounds'')"
  by (simp add: run_defs scenario_defs targetTransfer_def emittedBy_def parsesAsTransfer_def)

text \<open>
  Claim C1, amended. When a run of the purchase function has waited for the transaction
  with hash \<open>h\<close> and the receipt that came back does not have status 0, only the logs
  emitted by the lock address are parsed. When the parser raises on none of them, the
  result is the token identifier of the first of them that parses as a \<open>Transfer\<close>
  event, and \<open>null\<close> when there is none; when it raises on one, the run is rejected
  with the error of the first such log. Logs of other addresses do not count, whatever
  they decode to: dropping them from the receipt leaves the result as it is.
\<close>

theorem receipt_success_reads_target_transfer:
  assumes "WaitForTransaction h \<in> set (fst (purchaseKey E p opts))"
    and "waitForTransaction E h = Inr r"
    and "status r \<noteq> Some 0"
  shows "\<exists>lock. getLockContract E (lockAddress p) = Inr lock \<and>
     (case find (targetRaise (lockAddress p) lock) (logs r) of
        Some l \<Rightarrow> (\<exists>e. parseLog lock l = Inl e \<and> snd (purchaseKey E p opts) = Inl e)
      | None \<Rightarrow>
          (case find (targetTransfer (lockAddress p) lock) (logs r) of
             None \<Rightarrow> snd (purchaseKey E p opts) = Inr None
           | Some l \<Rightarrow>
               (\<exists>d. parseLog lock l = Inr (Some d) \<and> fragment_name d = Some ''Transfer'' \<and>
                    snd (purchaseKey E p opts) = Inr (Some (bigint_toString (tokenId d)))))) \<and>
     confirmation (lockAddress p) lock (r\<lparr>logs := filter (emittedBy (lockAddress p)) (logs r)\<rparr>) =
       snd (purchaseKey E p opts)"
proof -
  from purchaseKey_wait [OF assms(1)] assms(2) obtain lock where
    lock: "getLockContract E (lockAddress p) = Inr lock" and
    res: "snd (purchaseKey E p opts) = confirmation (lockAddress p) lock r"
    by auto
  let ?la = "lockAddress p"
  have "case find (targetRaise ?la lock) (logs r) of
        Some l \<Rightarrow> (\<exists>e. parseLog lock l = Inl e \<and> snd (purchaseKey E p opts) = Inl e)
      | None \<Rightarrow>
          (case find (targetTransfer ?la lock) (logs r) of
             None \<Rightarrow> snd (purchaseKey E p opts) = Inr None
           | Some l \<Rightarrow>
               (\<exists>d. parseLog lock l = Inr (Some d) \<and> fragment_name d = Some ''Transfer'' \<and>
                    snd (purchaseKey E p opts) = Inr (Some (bigint_toString (tokenId d)))))"
  proof (cases "find (targetRaise ?la lock) (logs r)")
    case (Some l)
    then have "targetRaise ?la lock l"
      by (auto simp: find_Some_iff)
    then obtain e where "parseLog lock l = Inl e"
      by (auto simp: targetRaise_def split: sum.splits)
    with Some assms(3) show ?thesis by (simp add: res confirmation_find)
  next
    case None
    show ?thesis
    proof (cases "find (targetTransfer ?la lock) (logs r)")
      case nt: None
      with None assms(3) show ?thesis by (simp add: res confirmation_find)
    next
      case (Some l)
      then have "targetTransfer ?la lock l"
        by (auto simp: find_Some_iff)
      then obtain d where "parseLog lock l = Inr (Some d)" "fragment_name d = Some ''Transfer''"
        by (auto simp: targetTransfer_def parsesAsTransfer_def isTransfer_def
            split: sum.splits option.splits)
      with None Some assms(3) show ?thesis by (simp add: res confirmation_find)
    qed
  qed
  moreover have "confirmation ?la lock (r\<lparr>logs := filter (emittedBy ?la) (logs r)\<rparr>) =
      snd (purchaseKey E p opts)"
    unfolding res by (rule confirmation_filter)
  ultimately show ?thesis using lock by blast
qed

theorem receipt_success_reads_target_transfer_witness:
  "WaitForTransaction ''0xh1'' \<in> set (fst (purchaseKey healthyEnv plainParams noOptions)) \<and>
   waitForTransaction healthyEnv ''0xh1'' = Inr minedReceipt \<and>
   status minedReceipt \<noteq> Some 0 \<and>
   \<not> emittedBy (lockAddress plainParams) (logs minedReceipt ! 0) \<and>
   parsesAsTransfer nativeLock (logs minedReceipt ! 0) \<and>
   find (targetRaise (lockAddress plainParams) nativeLock) (logs minedReceipt) = None \<and>
   find (targetTransfer (lockAddress plainParams) nativeLock) (logs minedReceipt) =
     Some (logs minedReceipt ! 1) \<and>
   snd (purchaseKey healthyEnv plainParams noOptions) = Inr (Some ''7'')"
proof -
  have reach: "WaitForTransaction ''0xh1'' \<in> set (fst (purchaseKey healthyEnv plainParams noOptions))"
    by (simp add: run_defs scenario_defs)
  have rec: "waitForTransaction healthyEnv ''0xh1'' = Inr minedReceipt"
    by (simp add: healthyEnv_def)
  have ok: "status minedReceipt \<noteq> Some 0"
    by (simp add: minedReceipt_def)
  have lock: "getLockContract healthyEnv (lockAddress plainParams) = Inr nativeLock"
    by (simp add: healthyEnv_def)
  have other: "\<not> emittedBy (lockAddress plainParams) (logs minedReceipt ! 0) \<and>
      parsesAsTransfer nativeLock (logs minedReceipt ! 0)"
    by (simp add: emittedBy_def toLowerCase_def lower_char_def parsesAsTransfer_def
        isTransfer_def scenario_defs)
  have quiet: "find (targetRaise (lockAddress plainParams) nativeLock) (logs minedReceipt) = None"
    by (simp add: targetRaise_def emittedBy_def toLowerCase_def lower_char_def scenario_defs)
  have found: "find (targetTransfer (lockAddress plainParams) nativeLock) (logs minedReceipt) =
      Some (logs minedReceipt ! 1)"
    by (simp add: targetTransfer_def emittedBy_def toLowerCase_def lower_char_def
        parsesAsTransfer_def isTransfer_def scenario_defs)
  have id: "bigint_toString 7 = ''7''"
    by (simp add: bigint_toString_def digit_char_def)
  from receipt_success_reads_target_transfer [OF reach rec ok] lock quiet found id
  have "snd (purchaseKey healthyEnv plainParams noOptions) = Inr (Some ''7'')"
    by (auto simp: nativeLock_def minedReceipt_def)
  with reach rec ok other quiet found show ?thesis by simp
qed

text \<open>
  Claim C2. When the receipt that came back has status 0, the run fails with
  \<open>TransactionFailed\<close>, whatever logs the receipt holds; it returns no token identifier.
\<close>

theorem reverted_receipt_fails:
  assumes "WaitForTransaction h \<in> set (fst (purchaseKey E p opts))"
    and "waitForTransaction E h = Inr r"
    and "status r = Some 0"
  shows "snd (purchaseKey E p opts) = Inl TransactionFailed"
proof -
  from purchaseKey_wait [OF assms(1)] assms(2) obtain lock where
    "snd (purchaseKey E p opts) = confirmation (lockAddress p) lock r"
    by auto
  with assms(3) show ?thesis by (simp add: confirmation_def)
qed

theorem reverted_receipt_fails_witness:
  "WaitForTransaction ''0xh1'' \<in> set (fst (purchaseKey revertedEnv plainParams noOptions)) \<and>
   waitForTransaction revertedEnv ''0xh1'' = Inr (minedReceipt\<lparr>status := Some 0\<rparr>) \<and>
   status (minedReceipt\<lparr>status := Some 0\<rparr>) = Some 0 \<and>
   length (logs (minedReceipt\<lparr>status := Some 0\<rparr>)) = 2 \<and>
   snd (purchaseKey revertedEnv plainParams noOptions) = Inl TransactionFailed"
proof -
  have reach: "WaitForTransaction ''0xh1'' \<in> set (fst (purchaseKey revertedEnv plainParams noOptions))"
    by (simp add: run_defs scenario_defs)
  have rec: "waitForTransaction revertedEnv ''0xh1'' = Inr (minedReceipt\<lparr>status := Some 0\<rparr>)"
    by (simp add: revertedEnv_def)
  have st: "status (minedReceipt\<lparr>status := Some 0\<rparr>) = Some 0"
    by simp
  have "length (logs (minedReceipt\<lparr>status := Some 0\<rparr>)) = 2"
    by (simp add: minedReceipt_def)
  with reach rec st reverted_receipt_fails [OF reach rec st] show ?thesis
    by simp
qed


section \<open>Facts about the options\<close>

lemma bigint_div_nonneg: "0 \<le> a \<Longrightarrow> 0 < b \<Longrightarrow> bigint_div a b = a div b"
  by (cases "a = 0") (simp_all add: bigint_div_def)

lemma withValue_keeps:
  "gasLimit (withValue r sw opts) = gasLimit opts"
  "maxFeePerGas (withValue r sw opts) = maxFeePerGas opts"
  "maxPriorityFeePerGas (withValue r sw opts) = maxPriorityFeePerGas opts"
  "gasPrice (withValue r sw opts) = gasPrice opts"
  by (simp_all add: withValue_def Let_def split: option.splits)

lemma withFees_keeps:
  "gasLimit (withFees fd opts) = gasLimit opts"
  "txValue (withFees fd opts) = txValue opts"
  by (simp_all add: withFees_def)

lemma deleteFees_fields:
  "maxFeePerGas (deleteFees opts) = None"
  "maxPriorityFeePerGas (deleteFees opts) = None"
  "gasPrice (deleteFees opts) = None"
  "gasLimit (deleteFees opts) = gasLimit opts"
  "txValue (deleteFees opts) = txValue opts"
  by (simp_all add: deleteFees_def)

text \<open>Every transaction a run sends is the one call, with the options the estimate left.\<close>

lemma purchaseKey_send:
  "SendTransaction c sent \<in> set (fst (purchaseKey E p opts)) \<longleftrightarrow>
     (\<exists>r. snd (resolve E p) = Inr r \<and>
          snd (approve E (approvalOptionsOf E (lockAddress p) r (swap p))) = Inr () \<and>
          c = contractCallOf (lockAddress p) r (swap p) \<and>
          snd (estimate E c (withValue r (swap p) opts)) = Inr sent)"
  by (auto simp: purchaseKey_late finish_send)

lemma purchaseKey_estimate:
  assumes "stage ev = 2"
  shows "ev \<in> set (fst (purchaseKey E p opts)) \<longleftrightarrow>
     (\<exists>r. snd (resolve E p) = Inr r \<and>
          snd (approve E (approvalOptionsOf E (lockAddress p) r (swap p))) = Inr () \<and>
          ev \<in> set (fst (estimate E (contractCallOf (lockAddress p) r (swap p))
                           (withValue r (swap p) opts))))"
  using assms by (simp add: purchaseKey_late finish_stage2)

section \<open>The gas estimator\<close>

text \<open>
  Claim C3. When a run has asked for a gas estimate of its call (the direct purchase or
  the swap-and-call) and the estimate \<open>g\<close> came back, the one transaction it sends
  carries the gas limit \<open>\<lfloor>g \<times> 13 / 10\<rfloor>\<close> and none of \<open>maxFeePerGas\<close>,
  \<open>maxPriorityFeePerGas\<close> and \<open>gasPrice\<close>; the native value is the one the estimate was
  asked with.
\<close>

theorem estimate_success_sets_gas_limit:
  assumes "EstimateGas c eo \<in> set (fst (purchaseKey E p opts))"
    and "estimateGas E c eo = Inr g"
  shows "\<exists>sent. SendTransaction c sent \<in> set (fst (purchaseKey E p opts)) \<and>
     (\<forall>c' o'. SendTransaction c' o' \<in> set (fst (purchaseKey E p opts)) \<longrightarrow> c' = c \<and> o' = sent) \<and>
     gasLimit sent = Some (BigInt ((int g * 13) div 10)) \<and>
     maxFeePerGas sent = None \<and> maxPriorityFeePerGas sent = None \<and> gasPrice sent = None \<and>
     txValue sent = txValue eo"
proof -
  have "stage (EstimateGas c eo) = 2" by simp
  from purchaseKey_estimate [OF this, of E p opts] assms(1) obtain r where
    r: "snd (resolve E p) = Inr r" and
    a: "snd (approve E (approvalOptionsOf E (lockAddress p) r (swap p))) = Inr ()" and
    ev: "EstimateGas c eo \<in> set (fst (estimate E (contractCallOf (lockAddress p) r (swap p))
                           (withValue r (swap p) opts)))"
    by auto
  let ?c = "contractCallOf (lockAddress p) r (swap p)"
  let ?o = "withValue r (swap p) opts"
  from ev obtain fd where
    falsy: "\<not> truthy_quantity (gasLimit ?o)" and
    fd: "getFeeData E = Inr fd" and
    c: "c = ?c" and eo: "eo = withFees fd ?o"
    by (auto simp: estimate_events split: if_splits sum.splits)
  define sent where
    "sent = (deleteFees eo)\<lparr>gasLimit := Some (BigInt (bigint_div (int g * 13) 10))\<rparr>"
  from falsy fd assms(2) c eo have est: "snd (estimate E ?c ?o) = Inr sent"
    by (simp add: estimate_result sent_def)
  from r a c est have "SendTransaction c sent \<in> set (fst (purchaseKey E p opts))"
    by (auto simp: purchaseKey_send)
  moreover have "\<forall>c' o'. SendTransaction c' o' \<in> set (fst (purchaseKey E p opts)) \<longrightarrow>
      c' = c \<and> o' = sent"
    using r c est by (auto simp: purchaseKey_send)
  moreover have "gasLimit sent = Some (BigInt ((int g * 13) div 10))"
    by (simp add: sent_def bigint_div_nonneg)
  moreover have "maxFeePerGas sent = None \<and> maxPriorityFeePerGas sent = None \<and>
      gasPrice sent = None \<and> txValue sent = txValue eo"
    by (simp add: sent_def deleteFees_def)
  ultimately show ?thesis by blast
qed

theorem estimate_success_sets_gas_limit_witness:
  "EstimateGas (Purchase 5 ''0x0e'' ZERO ''0x'')
     \<lparr>txValue = Some (BigInt 5), gasLimit = None, maxFeePerGas = Some (BigInt 30),
      maxPriorityFeePerGas = Some (BigInt 2), gasPrice = None\<rparr>
     \<in> set (fst (purchaseKey healthyEnv plainParams noOptions)) \<and>
   estimateGas healthyEnv (Purchase 5 ''0x0e'' ZERO ''0x'')
     \<lparr>txValue = Some (BigInt 5), gasLimit = None, maxFeePerGas = Some (BigInt 30),
      maxPriorityFeePerGas = Some (BigInt 2), gasPrice = None\<rparr> = Inr 100007 \<and>
   SendTransaction (Purchase 5 ''0x0e'' ZERO ''0x'')
     \<lparr>txValue = Some (BigInt 5), gasLimit = Some (BigInt 130009), maxFeePerGas = None,
      maxPriorityFeePerGas = None, gasPrice = None\<rparr>
     \<in> set (fst (purchaseKey healthyEnv plainParams noOptions))"
proof -
  let ?c = "Purchase 5 ''0x0e'' ZERO ''0x''"
  let ?eo = "\<lparr>txValue = Some (BigInt 5), gasLimit = None, maxFeePerGas = Some (BigInt 30),
      maxPriorityFeePerGas = Some (BigInt 2), gasPrice = None\<rparr>"
  have est: "EstimateGas ?c ?eo \<in> set (fst (purchaseKey healthyEnv plainParams noOptions))"
    by (simp add: run_defs scenario_defs)
  have ans: "estimateGas healthyEnv ?c ?eo = Inr 100007"
    by (simp add: healthyEnv_def)
  from estimate_success_sets_gas_limit [OF est ans] obtain sent where
    "SendTransaction ?c sent \<in> set (fst (purchaseKey healthyEnv plainParams noOptions))"
    "gasLimit sent = Some (BigInt 130009)" "maxFeePerGas sent = None"
    "maxPriorityFeePerGas sent = None" "gasPrice sent = None" "txValue sent = Some (BigInt 5)"
    by auto
  moreover from this have "sent = \<lparr>txValue = Some (BigInt 5), gasLimit = Some (BigInt 130009),
      maxFeePerGas = None, maxPriorityFeePerGas = None, gasPrice = None\<rparr>"
    by (cases sent) simp
  ultimately show ?thesis using est ans by simp
qed

text \<open>
  Claim C4. When a run has entered the gas estimation (it asked for the fee data) and
  either the fee data or the gas estimate was refused with an error, the run goes on to
  send its transaction: the failure is not raised. The options sent carry none of
  \<open>maxFeePerGas\<close>, \<open>maxPriorityFeePerGas\<close> and \<open>gasPrice\<close>, and no gas limit: the
  field is as the caller left it, and the estimation is entered only when that is absent
  or falsy.
\<close>

theorem estimate_failure_degrades:
  assumes "GetFeeData \<in> set (fst (purchaseKey E p opts))"
    and "getFeeData E = Inl e \<or>
         (\<exists>c eo. EstimateGas c eo \<in> set (fst (purchaseKey E p opts)) \<and> estimateGas E c eo = Inl e)"
  shows "\<exists>c sent. SendTransaction c sent \<in> set (fst (purchaseKey E p opts)) \<and>
     (\<forall>c' o'. SendTransaction c' o' \<in> set (fst (purchaseKey E p opts)) \<longrightarrow> c' = c \<and> o' = sent) \<and>
     maxFeePerGas sent = None \<and> maxPriorityFeePerGas sent = None \<and> gasPrice sent = None \<and>
     gasLimit sent = gasLimit opts \<and> \<not> truthy_quantity (gasLimit sent)"
proof -
  have "stage GetFeeData = 2" by simp
  from purchaseKey_estimate [OF this, of E p opts] assms(1) obtain r where
    r: "snd (resolve E p) = Inr r" and
    a: "snd (approve E (approvalOptionsOf E (lockAddress p) r (swap p))) = Inr ()" and
    ev: "GetFeeData \<in> set (fst (estimate E (contractCallOf (lockAddress p) r (swap p))
                           (withValue r (swap p) opts)))"
    by auto
  let ?c = "contractCallOf (lockAddress p) r (swap p)"
  let ?o = "withValue r (swap p) opts"
  from ev have falsy: "\<not> truthy_quantity (gasLimit ?o)"
    by (auto simp: estimate_events split: if_splits)
  obtain sent where est: "snd (estimate E ?c ?o) = Inr sent"
    by (simp add: estimate_result)
  have failed: "sent = deleteFees ?o \<or> (\<exists>fd. sent = deleteFees (withFees fd ?o))"
  proof (cases "getFeeData E")
    case (Inl e')
    with est falsy show ?thesis by (simp add: estimate_result)
  next
    case (Inr fd)
    with assms(2) obtain c eo where
      eg: "EstimateGas c eo \<in> set (fst (purchaseKey E p opts))" and
      bad: "estimateGas E c eo = Inl e"
      by auto
    have "stage (EstimateGas c eo) = 2" by simp
    from purchaseKey_estimate [OF this, of E p opts] eg r
    have "EstimateGas c eo \<in> set (fst (estimate E ?c ?o))"
      by auto
    with falsy Inr have "c = ?c" "eo = withFees fd ?o"
      by (auto simp: estimate_events)
    with est falsy Inr bad show ?thesis
      by (auto simp: estimate_result)
  qed
  from r a est have "SendTransaction ?c sent \<in> set (fst (purchaseKey E p opts))"
    by (auto simp: purchaseKey_send)
  moreover have "\<forall>c' o'. SendTransaction c' o' \<in> set (fst (purchaseKey E p opts)) \<longrightarrow>
      c' = ?c \<and> o' = sent"
    using r est by (auto simp: purchaseKey_send)
  moreover from failed have "maxFeePerGas sent = None \<and> maxPriorityFeePerGas sent = None \<and>
      gasPrice sent = None \<and> gasLimit sent = gasLimit opts"
    by (auto simp: deleteFees_fields withFees_keeps withValue_keeps)
  moreover from this falsy have "\<not> truthy_quantity (gasLimit sent)"
    by (simp add: withValue_keeps)
  ultimately show ?thesis by blast
qed

theorem estimate_failure_degrades_witness:
  "GetFeeData \<in> set (fst (purchaseKey noEstimateEnv plainParams noOptions)) \<and>
   EstimateGas (Purchase 5 ''0x0e'' ZERO ''0x'')
     \<lparr>txValue = Some (BigInt 5), gasLimit = None, maxFeePerGas = Some (BigInt 30),
      maxPriorityFeePerGas = Some (BigInt 2), gasPrice = None\<rparr>
     \<in> set (fst (purchaseKey noEstimateEnv plainParams noOptions)) \<and>
   estimateGas noEstimateEnv (Purchase 5 ''0x0e'' ZERO ''0x'')
     \<lparr>txValue = Some (BigInt 5), gasLimit = None, maxFeePerGas = Some (BigInt 30),
      maxPriorityFeePerGas = Some (BigInt 2), gasPrice = None\<rparr> =
     Inl (Raised ''cannot estimate gas'') \<and>
   SendTransaction (Purchase 5 ''0x0e'' ZERO ''0x'')
     \<lparr>txValue = Some (BigInt 5), gasLimit = None, maxFeePerGas = None,
      maxPriorityFeePerGas = None, gasPrice = None\<rparr>
     \<in> set (fst (purchaseKey noEstimateEnv plainParams noOptions)) \<and>
   snd (purchaseKey noEstimateEnv plainParams noOptions) = Inr (Some ''7'')"
proof -
  let ?c = "Purchase 5 ''0x0e'' ZERO ''0x''"
  let ?eo = "\<lparr>txValue = Some (BigInt 5), gasLimit = None, maxFeePerGas = Some (BigInt 30),
      maxPriorityFeePerGas = Some (BigInt 2), gasPrice = None\<rparr>"
  let ?sent = "\<lparr>txValue = Some (BigInt 5), gasLimit = None, maxFeePerGas = None,
      maxPriorityFeePerGas = None, gasPrice = None\<rparr>"
  have fee: "GetFeeData \<in> set (fst (purchaseKey noEstimateEnv plainParams noOptions))"
    by (simp add: run_defs scenario_defs)
  have est: "EstimateGas ?c ?eo \<in> set (fst (purchaseKey noEstimateEnv plainParams noOptions))"
    by (simp add: run_defs scenario_defs)
  have ans: "estimateGas noEstimateEnv ?c ?eo = Inl (Raised ''cannot estimate gas'')"
    by (simp add: noEstimateEnv_def)
  have sent: "SendTransaction ?c ?sent \<in> set (fst (purchaseKey noEstimateEnv plainParams noOptions))"
    by (simp add: run_defs scenario_defs)
  have res: "snd (purchaseKey noEstimateEnv plainParams noOptions) = Inr (Some ''7'')"
    by (simp add: run_defs scenario_defs)
  from est ans have "getFeeData noEstimateEnv = Inl (Raised ''cannot estimate gas'') \<or>
      (\<exists>c eo. EstimateGas c eo \<in> set (fst (purchaseKey noEstimateEnv plainParams noOptions)) \<and>
              estimateGas noEstimateEnv c eo = Inl (Raised ''cannot estimate gas''))"
    by blast
  from estimate_failure_degrades [OF fee this] sent
  have "gasLimit ?sent = gasLimit noOptions \<and> gasPrice ?sent = None"
    by blast
  with fee est ans sent res show ?thesis by simp
qed

text \<open>
  Claim C10. When the options of the caller hold a gas limit (a truthy one: line 579
  tests \<open>!transactionOptions.gasLimit\<close>), a run asks neither for the fee data nor for a
  gas estimate, and every transaction it sends carries the caller's gas limit and the
  caller's three fee parameters as they were given.
\<close>

theorem supplied_gas_limit_skips_estimate:
  assumes "truthy_quantity (gasLimit opts)"
  shows "GetFeeData \<notin> set (fst (purchaseKey E p opts)) \<and>
     (\<forall>c eo. EstimateGas c eo \<notin> set (fst (purchaseKey E p opts))) \<and>
     (\<forall>c sent. SendTransaction c sent \<in> set (fst (purchaseKey E p opts)) \<longrightarrow>
        gasLimit sent = gasLimit opts \<and> maxFeePerGas sent = maxFeePerGas opts \<and>
        maxPriorityFeePerGas sent = maxPriorityFeePerGas opts \<and> gasPrice sent = gasPrice opts)"
proof -
  have skip: "fst (estimate E c (withValue r sw opts)) = []" for c r sw
    using assms by (simp add: estimate_events withValue_keeps)
  have same: "snd (estimate E c (withValue r sw opts)) = Inr (withValue r sw opts)" for c r sw
    using assms by (simp add: estimate_result withValue_keeps)
  have "GetFeeData \<notin> set (fst (purchaseKey E p opts))"
    using purchaseKey_estimate [of GetFeeData E p opts] by (simp add: skip)
  moreover have "EstimateGas c eo \<notin> set (fst (purchaseKey E p opts))" for c eo
    using purchaseKey_estimate [of "EstimateGas c eo" E p opts] by (simp add: skip)
  moreover have "gasLimit sent = gasLimit opts \<and> maxFeePerGas sent = maxFeePerGas opts \<and>
        maxPriorityFeePerGas sent = maxPriorityFeePerGas opts \<and> gasPrice sent = gasPrice opts"
    if "SendTransaction c sent \<in> set (fst (purchaseKey E p opts))" for c sent
    using that by (auto simp: purchaseKey_send same withValue_keeps)
  ultimately show ?thesis by blast
qed


theorem supplied_gas_limit_skips_estimate_witness:
  "truthy_quantity (gasLimit suppliedGasOptions) \<and>
   GetFeeData \<notin> set (fst (purchaseKey healthyEnv plainParams suppliedGasOptions)) \<and>
   SendTransaction (Purchase 5 ''0x0e'' ZERO ''0x'')
     \<lparr>txValue = Some (BigInt 5), gasLimit = Some (BigInt 300000),
      maxFeePerGas = Some (BigInt 9), maxPriorityFeePerGas = None, gasPrice = None\<rparr>
     \<in> set (fst (purchaseKey healthyEnv plainParams suppliedGasOptions))"
proof -
  have sup: "truthy_quantity (gasLimit suppliedGasOptions)"
    by (simp add: suppliedGasOptions_def noOptions_def)
  have "SendTransaction (Purchase 5 ''0x0e'' ZERO ''0x'')
     \<lparr>txValue = Some (BigInt 5), gasLimit = Some (BigInt 300000),
      maxFeePerGas = Some (BigInt 9), maxPriorityFeePerGas = None, gasPrice = None\<rparr>
     \<in> set (fst (purchaseKey healthyEnv plainParams suppliedGasOptions))"
    by (simp add: run_defs scenario_defs)
  with sup supplied_gas_limit_skips_estimate [OF sup, of healthyEnv plainParams]
  show ?thesis by simp
qed


section \<open>The call builder\<close>

lemma estimate_keeps_value:
  "snd (estimate E c opts) = Inr sent \<Longrightarrow> txValue sent = txValue opts"
  by (auto simp: estimate_result deleteFees_fields withFees_keeps split: if_splits sum.splits)

lemma withValue_value:
  "txValue (withValue r sw opts) =
     (case sw of
        Some s \<Rightarrow>
          if truthy_quantity (swapValue s) then swapValue s
          else if \<not> truthy_string (r_erc20Address r) \<or> r_erc20Address r = Some ZERO
               then Some (BigInt (r_actualAmount r)) else txValue opts
      | None \<Rightarrow>
          if \<not> truthy_string (r_erc20Address r) \<or> r_erc20Address r = Some ZERO
          then Some (BigInt (r_actualAmount r)) else txValue opts)"
  by (auto simp: withValue_def Let_def split: option.splits)

text \<open>Where the route's native value is truthy (the test of line 556), it is the value sent.\<close>

lemma swap_value_overrides_when_truthy:
  assumes "SendTransaction c sent \<in> set (fst (purchaseKey E p opts))"
    and "swap p = Some s"
    and "truthy_quantity (swapValue s)"
  shows "txValue sent = swapValue s"
  using assms by (auto simp: purchaseKey_send withValue_value dest!: estimate_keeps_value)

text \<open>
  Claim C7 says that with a swap route the native value of the transaction is the route's
  native-value field and never the purchase amount, as the comment of line 555 does. The
  code departs from it where that field is zero or absent, as it is for a swap paid from
  a token: line 556 tests the field for truth, the override is skipped, and for a lock
  priced in native currency the transaction is sent with the purchase amount (5 here) as
  its value.
\<close>

theorem swap_value_not_always_taken:
  "swap swapPurchaseParams = Some tokenSwap \<and>
   swapValue tokenSwap = Some (BigInt 0) \<and>
   lock_keyPrice nativeLock = Inr 5 \<and>
   SendTransaction (SwapAndCall ''0xAbC1'' ''0x70'' 5 1010 ''0x12'' ''0x5c'' ''0xca11'')
     \<lparr>txValue = Some (BigInt 5), gasLimit = Some (BigInt 130009), maxFeePerGas = None,
      maxPriorityFeePerGas = None, gasPrice = None\<rparr>
     \<in> set (fst (purchaseKey healthyEnv swapPurchaseParams noOptions)) \<and>
   SendTransaction (SwapAndCall ''0xAbC1'' ''0x70'' 5 1010 ''0x12'' ''0x5c'' ''0xca11'')
     \<lparr>txValue = Some (BigInt 5), gasLimit = Some (BigInt 130009), maxFeePerGas = None,
      maxPriorityFeePerGas = None, gasPrice = None\<rparr>
     \<in> set (fst (purchaseKey healthyEnv
          (plainParams\<lparr>swap := Some (tokenSwap\<lparr>swapValue := None\<rparr>)\<rparr>) noOptions))"
  by (simp add: run_defs scenario_defs)

section \<open>The approval\<close>

lemma purchaseKey_approve:
  "ApproveAllowance ao \<in> set (fst (purchaseKey E p opts)) \<longleftrightarrow>
     (\<exists>r. snd (resolve E p) = Inr r \<and>
          ApproveAllowance ao \<in> set (fst (approve E (approvalOptionsOf E (lockAddress p) r (swap p)))))"
proof (cases "snd (resolve E p)")
  case (Inl e)
  then show ?thesis
    by (auto simp: purchaseKey_def fst_and_then dest: resolve_stage)
next
  case (Inr r)
  let ?ao = "approvalOptionsOf E (lockAddress p) r (swap p)"
  have "ApproveAllowance ao \<notin> set (fst (resolve E p))"
    by (auto dest: resolve_stage)
  moreover have "ApproveAllowance ao \<notin> set (fst (finish E la lock c opts'))" for la lock c opts'
    by (auto simp: finish_def fst_and_then estimate_events split: sum.splits option.splits if_splits)
  ultimately show ?thesis using Inr
    by (auto simp: purchaseKey_def fst_and_then split: sum.splits)
qed

text \<open>
  The approvals of a run. One is asked for exactly when the amount has been resolved and
  the selected token address is present, not empty and not the zero address. With a swap
  route it names the route's source token, what reading \<open>address\<close> off the
  swap-purchaser contract object gives, and the route's maximum input amount; without
  one, the payment token, the lock and the resolved amount. A run asks for at most one.
\<close>

lemma purchaseKey_approvals:
  "(ApproveAllowance ao \<in> set (fst (purchaseKey E p opts)) \<longleftrightarrow>
      (\<exists>r. snd (resolve E p) = Inr r \<and>
           ao = (case swap p of
                   Some s \<Rightarrow> \<lparr>ao_erc20Address = srcTokenAddress s,
                              ao_address = contract_address (getUnlockSwapPurchaserContract E),
                              totalAmountToApprove = amountInMax s\<rparr>
                 | None \<Rightarrow> \<lparr>ao_erc20Address = r_erc20Address r,
                            ao_address = Some (lockAddress p),
                            totalAmountToApprove = r_actualAmount r\<rparr>) \<and>
           ao_erc20Address ao \<noteq> None \<and> ao_erc20Address ao \<noteq> Some [] \<and>
           ao_erc20Address ao \<noteq> Some ZERO)) \<and>
   length (filter (\<lambda>ev. stage ev = 1) (fst (purchaseKey E p opts))) \<le> 1"
proof -
  have tr: "truthy_string x \<longleftrightarrow> x \<noteq> None \<and> x \<noteq> Some []" for x
    by (cases x) simp_all
  have one: "(ApproveAllowance ao \<in> set (fst (purchaseKey E p opts)) \<longleftrightarrow>
      (\<exists>r. snd (resolve E p) = Inr r \<and>
           ao = (case swap p of
                   Some s \<Rightarrow> \<lparr>ao_erc20Address = srcTokenAddress s,
                              ao_address = contract_address (getUnlockSwapPurchaserContract E),
                              totalAmountToApprove = amountInMax s\<rparr>
                 | None \<Rightarrow> \<lparr>ao_erc20Address = r_erc20Address r,
                            ao_address = Some (lockAddress p),
                            totalAmountToApprove = r_actualAmount r\<rparr>) \<and>
           ao_erc20Address ao \<noteq> None \<and> ao_erc20Address ao \<noteq> Some [] \<and>
           ao_erc20Address ao \<noteq> Some ZERO))"
    unfolding purchaseKey_approve approve_events approvalOptionsOf_def tr
    by (cases "swap p") auto
  have nores: "filter (\<lambda>ev. stage ev = 1) (fst (resolve E p)) = []"
    by (auto simp: filter_empty_conv dest: resolve_stage)
  have nofin: "filter (\<lambda>ev. stage ev = 1) (fst (finish E la lock c opts')) = []" for la lock c opts'
    by (auto simp: filter_empty_conv finish_def fst_and_then estimate_events
        split: sum.splits option.splits if_splits)
  have "length (filter (\<lambda>ev. stage ev = 1) (fst (purchaseKey E p opts))) \<le> 1"
    by (auto simp: purchaseKey_def fst_and_then nores nofin approve_events
        simp del: One_nat_def split: sum.splits)
  with one show ?thesis by blast
qed

text \<open>
  Claim C9 says that with a swap route the approval names the swap-purchaser contract as
  the spender. The code departs from it: line 564 reads the property \<open>address\<close> of the
  contract object, and the object that lines 594 and 630 call has a target and no such
  property, so the approval of the route's source token, with the route's maximum input
  amount as the cap, is asked for with no spender. Without a swap route the spender is
  the lock address, as the claim says, and a purchase in native currency asks for no
  approval.
\<close>

theorem swap_approval_names_no_spender:
  "swap swapPurchaseParams = Some tokenSwap \<and>
   contract_target (getUnlockSwapPurchaserContract healthyEnv) = ''0x5a'' \<and>
   contract_address (getUnlockSwapPurchaserContract healthyEnv) = None \<and>
   filter (\<lambda>ev. stage ev = 1) (fst (purchaseKey healthyEnv swapPurchaseParams noOptions)) =
     [ApproveAllowance \<lparr>ao_erc20Address = Some ''0x70'', ao_address = None,
        totalAmountToApprove = 1010\<rparr>] \<and>
   filter (\<lambda>ev. stage ev = 1) (fst (purchaseKey healthyEnv tokenParams noOptions)) =
     [ApproveAllowance \<lparr>ao_erc20Address = Some ''0x70'', ao_address = Some ''0xAbC1'',
        totalAmountToApprove = 1000\<rparr>] \<and>
   filter (\<lambda>ev. stage ev = 1) (fst (purchaseKey healthyEnv plainParams noOptions)) = []"
  by (simp add: run_defs scenario_defs)

section \<open>The amount resolver\<close>

lemma resolve_amount:
  "snd (resolve E p) = Inr r \<Longrightarrow>
   snd (actualAmountOf E (r_lock r) (keyPrice p) (decimals p) (r_erc20Address r)) =
     Inr (r_actualAmount r)"
  by (auto simp: resolve_def snd_and_then Let_def split: if_splits sum.splits)

lemma resolve_token:
  "snd (resolve E p) = Inr r \<Longrightarrow>
   (if truthy_string (erc20Address p) then r_erc20Address r = erc20Address p
    else \<exists>a. tokenAddress (r_lock r) = Inr a \<and> r_erc20Address r = Some a)"
  by (auto simp: resolve_def snd_and_then Let_def split: if_splits sum.splits)

text \<open>
  Claim C6. The amount follows this order of cases. With no price given (absent or
  empty) the lock's current price is queried. With a price and decimals given the price
  is converted with those decimals and nothing is queried. With a price and no decimals,
  the decimals are read from the token contract when the token address is present and
  not the zero address, and are 18 otherwise; the price is then converted with them. A
  failed lookup or conversion is the result as it is. In a run of the purchase function
  the token address is the one given, or the lock's own when none is given, and the
  amount the run goes on with is the one resolved here.
\<close>

theorem amount_resolver_case_order:
  "(price = None \<or> price = Some [] \<longrightarrow>
      actualAmountOf E lock price decs token = ([LockKeyPrice], lock_keyPrice lock)) \<and>
   (price = Some s \<and> s \<noteq> [] \<and> decs = Some d \<longrightarrow>
      actualAmountOf E lock price decs token = ([], toDecimal E s d)) \<and>
   (price = Some s \<and> s \<noteq> [] \<and> decs = None \<and> token = Some a \<and> a \<noteq> [] \<and> a \<noteq> ZERO \<longrightarrow>
      actualAmountOf E lock price decs token =
        ([GetErc20Decimals a],
         case getErc20Decimals E a of Inl e \<Rightarrow> Inl e | Inr n \<Rightarrow> toDecimal E s n)) \<and>
   (price = Some s \<and> s \<noteq> [] \<and> decs = None \<and>
    (token = None \<or> token = Some [] \<or> token = Some ZERO) \<longrightarrow>
      actualAmountOf E lock price decs token = ([], toDecimal E s 18)) \<and>
   (snd (resolve E p) = Inr r \<longrightarrow>
      snd (actualAmountOf E (r_lock r) (keyPrice p) (decimals p) (r_erc20Address r)) =
        Inr (r_actualAmount r) \<and>
      (if erc20Address p = None \<or> erc20Address p = Some []
       then \<exists>t. tokenAddress (r_lock r) = Inr t \<and> r_erc20Address r = Some t
       else r_erc20Address r = erc20Address p))"
proof -
  have "actualAmountOf E lock price decs token = ([LockKeyPrice], lock_keyPrice lock)"
    if "price = None \<or> price = Some []"
    using that by (auto simp: actualAmountOf_def await_def)
  moreover have "actualAmountOf E lock price decs token = ([], toDecimal E s d)"
    if "price = Some s \<and> s \<noteq> [] \<and> decs = Some d"
    using that by (simp add: actualAmountOf_def)
  moreover have "actualAmountOf E lock price decs token =
        ([GetErc20Decimals a],
         case getErc20Decimals E a of Inl e \<Rightarrow> Inl e | Inr n \<Rightarrow> toDecimal E s n)"
    if "price = Some s \<and> s \<noteq> [] \<and> decs = None \<and> token = Some a \<and> a \<noteq> [] \<and> a \<noteq> ZERO"
    using that by (simp add: actualAmountOf_def and_then_def await_def split: sum.splits)
  moreover have "actualAmountOf E lock price decs token = ([], toDecimal E s 18)"
    if "price = Some s \<and> s \<noteq> [] \<and> decs = None \<and>
        (token = None \<or> token = Some [] \<or> token = Some ZERO)"
    using that by (auto simp: actualAmountOf_def and_then_def done_with_def split: prod.splits)
  moreover have "snd (actualAmountOf E (r_lock r) (keyPrice p) (decimals p) (r_erc20Address r)) =
        Inr (r_actualAmount r) \<and>
      (if erc20Address p = None \<or> erc20Address p = Some []
       then \<exists>t. tokenAddress (r_lock r) = Inr t \<and> r_erc20Address r = Some t
       else r_erc20Address r = erc20Address p)"
    if "snd (resolve E p) = Inr r"
    using resolve_amount [OF that] resolve_token [OF that]
    by (cases "erc20Address p") (auto split: if_splits)
  ultimately show ?thesis by blast
qed

theorem amount_resolver_case_order_witness:
  "actualAmountOf healthyEnv nativeLock None (Some 6) (Some ''0x70'') = ([LockKeyPrice], Inr 5) \<and>
   actualAmountOf healthyEnv nativeLock (Some ''1.5'') (Some 6) (Some ''0x70'') = ([], Inr 1000) \<and>
   actualAmountOf healthyEnv nativeLock (Some ''1.5'') None (Some ''0x70'') =
     ([GetErc20Decimals ''0x70''], Inr 1000) \<and>
   actualAmountOf healthyEnv nativeLock (Some ''1.5'') None (Some ZERO) = ([], Inr 1000) \<and>
   snd (resolve healthyEnv tokenParams) =
     Inr \<lparr>r_lock = nativeLock, r_owner = ''0x0e'', r_referrer = ZERO, r_data = ''0x'',
          r_erc20Address = Some ''0x70'', r_actualAmount = 1000, r_callData = ''0xca11''\<rparr>"
proof -
  have z: "''0x70'' \<noteq> ZERO" by (simp add: ZERO_def)
  have r: "snd (resolve healthyEnv tokenParams) =
     Inr \<lparr>r_lock = nativeLock, r_owner = ''0x0e'', r_referrer = ZERO, r_data = ''0x'',
          r_erc20Address = Some ''0x70'', r_actualAmount = 1000, r_callData = ''0xca11''\<rparr>"
    by (simp add: resolve_def and_then_def await_def done_with_def actualAmountOf_def
        scenario_defs Let_def)
  from amount_resolver_case_order
    [where price = None and E = healthyEnv and lock = nativeLock and decs = "Some 6"
       and token = "Some ''0x70''"]
  have 1: "actualAmountOf healthyEnv nativeLock None (Some 6) (Some ''0x70'') = ([LockKeyPrice], Inr 5)"
    by (simp add: nativeLock_def)
  from amount_resolver_case_order
    [where price = "Some ''1.5''" and s = "''1.5''" and decs = "Some 6" and d = 6
       and token = "Some ''0x70''" and E = healthyEnv and lock = nativeLock]
  have 2: "actualAmountOf healthyEnv nativeLock (Some ''1.5'') (Some 6) (Some ''0x70'') = ([], Inr 1000)"
    by (simp add: healthyEnv_def)
  from z amount_resolver_case_order
    [where price = "Some ''1.5''" and s = "''1.5''" and decs = None
       and token = "Some ''0x70''" and a = "''0x70''" and E = healthyEnv and lock = nativeLock]
  have 3: "actualAmountOf healthyEnv nativeLock (Some ''1.5'') None (Some ''0x70'') =
     ([GetErc20Decimals ''0x70''], Inr 1000)"
    by (simp add: healthyEnv_def)
  from amount_resolver_case_order
    [where price = "Some ''1.5''" and s = "''1.5''" and decs = None
       and token = "Some ZERO" and E = healthyEnv and lock = nativeLock]
  have 4: "actualAmountOf healthyEnv nativeLock (Some ''1.5'') None (Some ZERO) = ([], Inr 1000)"
    by (simp add: healthyEnv_def)
  from 1 2 3 4 r show ?thesis by simp
qed

section \<open>The request of the checkout component\<close>

lemma onConfirmCrypto_cases:
  "onConfirmCrypto U ctx =
     (case ctx_pricingData ctx of
        None \<Rightarrow> []
      | Some pd \<Rightarrow>
          (case swapOf U ctx of
             Inl e \<Rightarrow> [SetIsConfirming True, SetIsConfirming False, OnError e]
           | Inr sw \<Rightarrow>
               (case getWalletService U (ctx_lockNetwork ctx) of
                  Inl e \<Rightarrow> [SetIsConfirming True, GetWalletService (ctx_lockNetwork ctx),
                            SetIsConfirming False, OnError e]
                | Inr ws \<Rightarrow>
                    [SetIsConfirming True, GetWalletService (ctx_lockNetwork ctx),
                     if renew ctx then ExtendKey (extendKeyRequest U ctx sw)
                     else PurchaseKeys (purchaseKeysRequest U ctx pd sw)] @
                    (case (if renew ctx then extendKey ws (extendKeyRequest U ctx sw)
                           else purchaseKeys ws (purchaseKeysRequest U ctx pd sw)) of
                       Inl e \<Rightarrow> [SetIsConfirming False, OnError e]
                     | Inr _ \<Rightarrow> []))))"
  by (simp add: onConfirmCrypto_def split: option.splits sum.splits)

lemma onConfirmCrypto_purchaseKeys:
  "PurchaseKeys req \<in> set (onConfirmCrypto U ctx) \<longleftrightarrow>
     (\<exists>pd sw ws. ctx_pricingData ctx = Some pd \<and> swapOf U ctx = Inr sw \<and>
        getWalletService U (ctx_lockNetwork ctx) = Inr ws \<and> \<not> renew ctx \<and>
        req = purchaseKeysRequest U ctx pd sw)"
proof (cases "ctx_pricingData ctx")
  case None
  then show ?thesis by (simp add: onConfirmCrypto_cases)
next
  case (Some pd)
  show ?thesis
  proof (cases "swapOf U ctx")
    case (Inl e)
    with Some show ?thesis by (simp add: onConfirmCrypto_cases)
  next
    case (Inr sw)
    show ?thesis
    proof (cases "getWalletService U (ctx_lockNetwork ctx)")
      case (Inl e)
      with Some Inr show ?thesis by (simp add: onConfirmCrypto_cases)
    next
      case ws: (Inr ws)
      with Some Inr show ?thesis
        by (auto simp: onConfirmCrypto_cases split: sum.splits)
    qed
  qed
qed

lemma onConfirmCrypto_extendKey:
  "ExtendKey req \<in> set (onConfirmCrypto U ctx) \<longleftrightarrow>
     (\<exists>pd sw ws. ctx_pricingData ctx = Some pd \<and> swapOf U ctx = Inr sw \<and>
        getWalletService U (ctx_lockNetwork ctx) = Inr ws \<and> renew ctx \<and>
        req = extendKeyRequest U ctx sw)"
proof (cases "ctx_pricingData ctx")
  case None
  then show ?thesis by (simp add: onConfirmCrypto_cases)
next
  case (Some pd)
  show ?thesis
  proof (cases "swapOf U ctx")
    case (Inl e)
    with Some show ?thesis by (simp add: onConfirmCrypto_cases)
  next
    case (Inr sw)
    show ?thesis
    proof (cases "getWalletService U (ctx_lockNetwork ctx)")
      case (Inl e)
      with Some Inr show ?thesis by (simp add: onConfirmCrypto_cases)
    next
      case ws: (Inr ws)
      with Some Inr show ?thesis
        by (auto simp: onConfirmCrypto_cases split: sum.splits)
    qed
  qed
qed

lemma swapOf_amountInMax:
  "swapOf U ctx = Inr sw \<Longrightarrow>
   \<exists>q. parseUnits U (quote_toFixed (ctx_route ctx)) (inputCurrency_decimals (ctx_route ctx)) = Inr q \<and>
       amountInMax sw = bigint_div (q * 101) 100"
  by (auto simp: swapOf_def split: sum.splits)

text \<open>
  Claim C5. When the quoted input amount, parsed into base units, is \<open>q\<close> (an amount:
  not negative), the swap the component builds has the maximum input amount
  \<open>\<lfloor>q \<times> 101 / 100\<rfloor>\<close>, and so has every request it hands to the wallet service, for
  a purchase or for a renewal. For a quote of 1000 the maximum is 1010.
\<close>

theorem max_input_is_quote_plus_one_percent:
  assumes "parseUnits U (quote_toFixed (ctx_route ctx)) (inputCurrency_decimals (ctx_route ctx)) = Inr q"
    and "0 \<le> q"
  shows "(\<exists>sw. swapOf U ctx = Inr sw \<and> amountInMax sw = (q * 101) div 100) \<and>
     (\<forall>req. PurchaseKeys req \<in> set (onConfirmCrypto U ctx) \<longrightarrow>
        amountInMax (pk_swap req) = (q * 101) div 100) \<and>
     (\<forall>req. ExtendKey req \<in> set (onConfirmCrypto U ctx) \<longrightarrow>
        amountInMax (ek_swap req) = (q * 101) div 100)"
proof -
  from assms(2) have fl: "bigint_div (q * 101) 100 = (q * 101) div 100"
    by (simp add: bigint_div_nonneg)
  from assms(1) fl have "\<exists>sw. swapOf U ctx = Inr sw \<and> amountInMax sw = (q * 101) div 100"
    by (simp add: swapOf_def)
  moreover have "amountInMax (pk_swap req) = (q * 101) div 100"
    if "PurchaseKeys req \<in> set (onConfirmCrypto U ctx)" for req
    using that assms(1) fl
    by (auto simp: onConfirmCrypto_purchaseKeys purchaseKeysRequest_def dest!: swapOf_amountInMax)
  moreover have "amountInMax (ek_swap req) = (q * 101) div 100"
    if "ExtendKey req \<in> set (onConfirmCrypto U ctx)" for req
    using that assms(1) fl
    by (auto simp: onConfirmCrypto_extendKey extendKeyRequest_def dest!: swapOf_amountInMax)
  ultimately show ?thesis by blast
qed

theorem max_input_is_quote_plus_one_percent_witness:
  "parseUnits checkoutEnv (quote_toFixed (ctx_route twoRecipients))
     (inputCurrency_decimals (ctx_route twoRecipients)) = Inr 1000 \<and>
   (0::int) \<le> 1000 \<and>
   (\<exists>req. PurchaseKeys req \<in> set (onConfirmCrypto checkoutEnv twoRecipients) \<and>
          amountInMax (pk_swap req) = 1010)"
proof -
  have q: "parseUnits checkoutEnv (quote_toFixed (ctx_route twoRecipients))
     (inputCurrency_decimals (ctx_route twoRecipients)) = Inr 1000"
    by (simp add: checkoutEnv_def twoRecipients_def quotedRoute_def)
  have pos: "(0::int) \<le> 1000" by simp
  have "\<exists>req. PurchaseKeys req \<in> set (onConfirmCrypto checkoutEnv twoRecipients)"
    by (simp add: checkout_defs)
  with max_input_is_quote_plus_one_percent [OF q pos]
  have "\<exists>req. PurchaseKeys req \<in> set (onConfirmCrypto checkoutEnv twoRecipients) \<and>
          amountInMax (pk_swap req) = 1010"
    by auto
  with q pos show ?thesis by simp
qed

text \<open>
  Claim C8, as it is written, fails: for a session with two recipients, one key manager,
  one price and one data payload the component hands the wallet service a request whose
  arrays have these lengths, and reports no error.
\<close>

theorem request_lengths_not_validated:
  "onConfirmCrypto checkoutEnv twoRecipients =
     [SetIsConfirming True, GetWalletService 5,
      PurchaseKeys
        \<lparr>pk_lockAddress = ''0xAbC1'', pk_keyPrices = [''1''],
         pk_owners = [''0x0e'', ''0x0f''], pk_data = Some [''0x''],
         pk_keyManagers = Some [''0x3a''], pk_recurringPayments = Some [12, 12],
         pk_referrers = [''0x4e'', ''0x4e''], pk_totalApproval = None,
         pk_swap = \<lparr>srcTokenAddress = Some ''0x70'', uniswapRouter = ''0x12'',
                     swapCallData = ''0x5c'', swapValue = Some (Str ''0x00''),
                     amountInMax = 1010\<rparr>\<rparr>] \<and>
   length (recipients twoRecipients) = 2 \<and>
   keyManagers twoRecipients = Some [''0x3a''] \<and>
   purchaseData twoRecipients = Some [''0x'']"
  by (simp add: checkout_defs)

text \<open>
  Claim C8, amended. In every purchase request the component hands to the wallet service
  for \<open>N\<close> recipients, the owners are the recipients, the referrers are \<open>N\<close>, and the
  recurring-payment counts, when present, are \<open>N\<close>. The prices are as many as the pricing
  data holds; the key managers (dropped when empty) and the data payloads are the
  session's own, whatever their length. The component checks no length: the only error
  it reports after handing the request over is the one the wallet service raised.
\<close>

theorem request_arrays_as_built:
  assumes "PurchaseKeys req \<in> set (onConfirmCrypto U ctx)"
  shows "pk_owners req = recipients ctx \<and>
     length (pk_referrers req) = length (recipients ctx) \<and>
     (case pk_recurringPayments req of
        None \<Rightarrow> True
      | Some rs \<Rightarrow> length rs = length (recipients ctx)) \<and>
     (\<exists>pd. ctx_pricingData ctx = Some pd \<and> length (pk_keyPrices req) = length (prices pd)) \<and>
     pk_keyManagers req = (if keyManagers ctx = Some [] then None else keyManagers ctx) \<and>
     pk_data req = purchaseData ctx \<and>
     (\<forall>e. OnError e \<in> set (onConfirmCrypto U ctx) \<longrightarrow>
        (\<exists>ws. getWalletService U (ctx_lockNetwork ctx) = Inr ws \<and> purchaseKeys ws req = Inl e))"
proof -
  from assms obtain pd sw ws where
    pd: "ctx_pricingData ctx = Some pd" and sw: "swapOf U ctx = Inr sw" and
    ws: "getWalletService U (ctx_lockNetwork ctx) = Inr ws" and nr: "\<not> renew ctx" and
    req: "req = purchaseKeysRequest U ctx pd sw"
    by (auto simp: onConfirmCrypto_purchaseKeys)
  have "pk_owners req = recipients ctx \<and> length (pk_referrers req) = length (recipients ctx) \<and>
      pk_data req = purchaseData ctx"
    by (simp add: req purchaseKeysRequest_def referrersOf_def)
  moreover have "case pk_recurringPayments req of
        None \<Rightarrow> True
      | Some rs \<Rightarrow> length rs = length (recipients ctx)"
    by (simp add: req purchaseKeysRequest_def recurringPayments_def split: option.splits)
  moreover have "\<exists>pd. ctx_pricingData ctx = Some pd \<and> length (pk_keyPrices req) = length (prices pd)"
    by (simp add: pd req purchaseKeysRequest_def keyPricesOf_def)
  moreover have "pk_keyManagers req = (if keyManagers ctx = Some [] then None else keyManagers ctx)"
    by (simp add: req purchaseKeysRequest_def split: option.splits)
  moreover have "\<exists>ws. getWalletService U (ctx_lockNetwork ctx) = Inr ws \<and> purchaseKeys ws req = Inl e"
    if "OnError e \<in> set (onConfirmCrypto U ctx)" for e
    using that pd sw ws nr req by (auto simp: onConfirmCrypto_cases split: sum.splits)
  ultimately show ?thesis by blast
qed

theorem request_arrays_as_built_witness:
  "(\<exists>req. PurchaseKeys req \<in> set (onConfirmCrypto checkoutEnv twoRecipients) \<and>
      length (pk_owners req) = 2 \<and> length (pk_referrers req) = 2 \<and>
      pk_recurringPayments req = Some [12, 12] \<and> length (pk_keyPrices req) = 1 \<and>
      pk_keyManagers req = Some [''0x3a''])"
proof -
  let ?req = "purchaseKeysRequest checkoutEnv twoRecipients
      \<lparr>prices = [\<lparr>amount_toString = ''1''\<rparr>]\<rparr>
      \<lparr>srcTokenAddress = Some ''0x70'', uniswapRouter = ''0x12'', swapCallData = ''0x5c'',
       swapValue = Some (Str ''0x00''), amountInMax = 1010\<rparr>"
  have ev: "PurchaseKeys ?req \<in> set (onConfirmCrypto checkoutEnv twoRecipients)"
    by (simp add: checkout_defs)
  from request_arrays_as_built [OF ev]
  have "length (pk_owners ?req) = 2 \<and> length (pk_referrers ?req) = 2 \<and>
      length (pk_keyPrices ?req) = 1 \<and> pk_keyManagers ?req = Some [''0x3a'']"
    by (auto simp: twoRecipients_def)
  moreover have "pk_recurringPayments ?req = Some [12, 12]"
    by (simp add: checkout_defs numeral_2_eq_2)
  ultimately show ?thesis using ev by blast
qed


end
